theory Spec2Isabelle
  imports Complex_Main
begin

section \<open>Exceptions\<close>

text \<open>
  The exceptions that the methods of class \<open>data\<close> in \<open>intercorr.py\<close> can raise, either by
  an explicit \<open>raise UserWarning(...)\<close> or through the library calls they make
  (an index out of range, a missing dictionary key, numpy's broadcasting failure, a file
  that cannot be opened). A computation that may raise returns \<open>error + 'a\<close>, with
  \<open>Inl\<close> the exception.
\<close>

datatype error =
    UserWarning string
  | IndexError
  | KeyError string
  | ValueError
  | FileNotFoundError string

section \<open>Arrays\<close>

text \<open>
  A two-dimensional numpy array: its shape and its rows. The entries are float64 in the
  program and real numbers here, so every statement below is one of exact arithmetic.
  One-dimensional arrays are lists.
\<close>

record ndarray =
  shape0 :: nat
  shape1 :: nat
  rowlist :: "real list list"

definition item :: "ndarray \<Rightarrow> nat \<Rightarrow> nat \<Rightarrow> real" where
  "item M i j = rowlist M ! i ! j"

definition tabulate :: "nat \<Rightarrow> nat \<Rightarrow> (nat \<Rightarrow> nat \<Rightarrow> real) \<Rightarrow> ndarray" where
  "tabulate r c f =
     \<lparr>shape0 = r, shape1 = c, rowlist = map (\<lambda>i. map (\<lambda>j. f i j) [0..<c]) [0..<r]\<rparr>"

text \<open>\<open>np.ones(n)\<close>, \<open>np.zeros((r, c))\<close>, \<open>np.diag(v)\<close> of a one-dimensional \<open>v\<close>.\<close>

definition np_ones :: "nat \<Rightarrow> real list" where
  "np_ones n = replicate n 1"

definition np_zeros :: "nat \<Rightarrow> nat \<Rightarrow> ndarray" where
  "np_zeros r c = tabulate r c (\<lambda>i j. 0)"

definition np_diag :: "real list \<Rightarrow> ndarray" where
  "np_diag v = tabulate (length v) (length v) (\<lambda>i j. if i = j then v ! i else 0)"

text \<open>An array times a scalar, an array divided by a scalar, and \<open>M.T\<close>.\<close>

definition times_scalar :: "ndarray \<Rightarrow> real \<Rightarrow> ndarray" where
  "times_scalar M s = tabulate (shape0 M) (shape1 M) (\<lambda>i j. item M i j * s)"

definition divide_scalar :: "ndarray \<Rightarrow> real \<Rightarrow> ndarray" where
  "divide_scalar M s = tabulate (shape0 M) (shape1 M) (\<lambda>i j. item M i j / s)"

definition transpose_nd :: "ndarray \<Rightarrow> ndarray" where
  "transpose_nd M = tabulate (shape1 M) (shape0 M) (\<lambda>i j. item M j i)"

text \<open>
  \<open>np.dot(A, B)\<close> of two-dimensional arrays: the matrix product, a \<open>ValueError\<close> when the
  inner dimensions differ.
\<close>

definition np_dot :: "ndarray \<Rightarrow> ndarray \<Rightarrow> error + ndarray" where
  "np_dot A B =
     (if shape1 A \<noteq> shape0 B then Inl ValueError
      else Inr (tabulate (shape0 A) (shape1 B)
                 (\<lambda>i j. sum_list (map (\<lambda>k. item A i k * item B k j) [0..<shape1 A]))))"

text \<open>
  Broadcasting. Two dimensions are compatible when they are equal or one of them is 1;
  the result has the other one. An operand of dimension 1 is read at index 0.
\<close>

definition broadcast_dim :: "nat \<Rightarrow> nat \<Rightarrow> nat option" where
  "broadcast_dim a b =
     (if a = b then Some a else if a = 1 then Some b else if b = 1 then Some a else None)"

definition bidx :: "nat \<Rightarrow> nat \<Rightarrow> nat" where
  "bidx n i = (if n = 1 then 0 else i)"

text \<open>\<open>np.multiply(A, B)\<close> (also \<open>A * B\<close>): the elementwise product of the broadcast operands.\<close>

definition np_multiply :: "ndarray \<Rightarrow> ndarray \<Rightarrow> error + ndarray" where
  "np_multiply A B =
     (case broadcast_dim (shape0 A) (shape0 B) of
        None \<Rightarrow> Inl ValueError
      | Some r \<Rightarrow>
         (case broadcast_dim (shape1 A) (shape1 B) of
            None \<Rightarrow> Inl ValueError
          | Some c \<Rightarrow>
             Inr (tabulate r c
                   (\<lambda>i j. item A (bidx (shape0 A) i) (bidx (shape1 A) j)
                        * item B (bidx (shape0 B) i) (bidx (shape1 B) j)))))"

text \<open>\<open>u[:, None]\<close> and \<open>u[None, :]\<close> of a one-dimensional \<open>u\<close>; \<open>M.flatten()\<close>, row-major.\<close>

definition column_of :: "real list \<Rightarrow> ndarray" where
  "column_of u = tabulate (length u) 1 (\<lambda>i j. u ! i)"

definition row_of :: "real list \<Rightarrow> ndarray" where
  "row_of u = tabulate 1 (length u) (\<lambda>i j. u ! j)"

definition flatten :: "ndarray \<Rightarrow> real list" where
  "flatten M = concat (map (\<lambda>i. map (\<lambda>j. item M i j) [0..<shape1 M]) [0..<shape0 M])"

text \<open>
  \<open>M[r0:r1, c0:c1] = B\<close>. The slice is clipped to the array; the value is broadcast to
  the shape of the slice, a \<open>ValueError\<close> when it cannot be.
\<close>

definition setitem_slice ::
  "ndarray \<Rightarrow> nat \<Rightarrow> nat \<Rightarrow> nat \<Rightarrow> nat \<Rightarrow> ndarray \<Rightarrow> error + ndarray" where
  "setitem_slice M r0 r1 c0 c1 B =
     (let a0 = min r0 (shape0 M); a1 = min r1 (shape0 M);
          b0 = min c0 (shape1 M); b1 = min c1 (shape1 M)
      in if (shape0 B = a1 - a0 \<or> shape0 B = 1) \<and> (shape1 B = b1 - b0 \<or> shape1 B = 1)
         then Inr (tabulate (shape0 M) (shape1 M)
                    (\<lambda>i j. if a0 \<le> i \<and> i < a1 \<and> b0 \<le> j \<and> j < b1
                           then item B (bidx (shape0 B) (i - a0)) (bidx (shape1 B) (j - b0))
                           else item M i j))
         else Inl ValueError)"

text \<open>
  \<open>np.array(covs)\<close> of a list of two-dimensional arrays: the stack of them, which needs
  them all of one shape (numpy raises \<open>ValueError\<close> on an inhomogeneous list).
\<close>

definition np_array :: "ndarray list \<Rightarrow> error + ndarray list" where
  "np_array ms =
     (case ms of
        [] \<Rightarrow> Inr []
      | m # rest \<Rightarrow>
          if list_all (\<lambda>x. shape0 x = shape0 m \<and> shape1 x = shape1 m) rest
          then Inr ms else Inl ValueError)"

section \<open>The measurement records\<close>

text \<open>
  Each exposure of a file is a dictionary from a key to an array, as \<open>inst.open\<close> returns
  it. The methods read the keys \<open>wave\<close>, \<open>vis2\<close>, \<open>dvis2\<close>, \<open>t3mat\<close> and \<open>dt3\<close>.
\<close>

datatype pyarr = A1 "real list" | A2 ndarray

type_synonym exposure = "string \<Rightarrow> pyarr option"

definition getitem :: "exposure \<Rightarrow> string \<Rightarrow> error + pyarr" where
  "getitem d key = (case d key of None \<Rightarrow> Inl (KeyError key) | Some v \<Rightarrow> Inr v)"

fun arr_shape0 :: "pyarr \<Rightarrow> nat" where
  "arr_shape0 (A1 v) = length v"
| "arr_shape0 (A2 M) = shape0 M"

fun arr_flatten :: "pyarr \<Rightarrow> real list" where
  "arr_flatten (A1 v) = v"
| "arr_flatten (A2 M) = flatten M"

section \<open>The correlation engine\<close>

text \<open>
  Lines 204 to 207 of \<open>add_t3cov\<close>: the transform from baselines to triangles, filled
  block by block. The inner loop runs over the baselines \<open>l\<close>, the outer one over the
  triangles \<open>k\<close>.
\<close>

fun trafo_loop_l :: "nat \<Rightarrow> ndarray \<Rightarrow> nat \<Rightarrow> nat list \<Rightarrow> ndarray \<Rightarrow> error + ndarray" where
  "trafo_loop_l Nwave t3mat k [] trafo = Inr trafo"
| "trafo_loop_l Nwave t3mat k (l # ls) trafo =
     (case setitem_slice trafo (k * Nwave) ((k + 1) * Nwave) (l * Nwave) ((l + 1) * Nwave)
             (times_scalar (np_diag (np_ones Nwave)) (item t3mat k l)) of
        Inl e \<Rightarrow> Inl e
      | Inr trafo' \<Rightarrow> trafo_loop_l Nwave t3mat k ls trafo')"

fun trafo_loop_k :: "nat \<Rightarrow> ndarray \<Rightarrow> nat \<Rightarrow> nat list \<Rightarrow> ndarray \<Rightarrow> error + ndarray" where
  "trafo_loop_k Nwave t3mat Nbase [] trafo = Inr trafo"
| "trafo_loop_k Nwave t3mat Nbase (k # ks) trafo =
     (case trafo_loop_l Nwave t3mat k [0..<Nbase] trafo of
        Inl e \<Rightarrow> Inl e
      | Inr trafo' \<Rightarrow> trafo_loop_k Nwave t3mat Nbase ks trafo')"

definition build_trafo :: "nat \<Rightarrow> ndarray \<Rightarrow> error + ndarray" where
  "build_trafo Nwave t3mat =
     (let Nbase = shape1 t3mat; Ntria = shape0 t3mat
      in trafo_loop_k Nwave t3mat Nbase [0..<Ntria]
           (np_zeros (Nwave * Ntria) (Nwave * Nbase)))"

text \<open>
  Line 209: \<open>np.dot(trafo, np.dot(C, trafo.T))/3.\<close>, where the program has the identity
  \<open>np.diag(np.ones(Nwave*Nbase))\<close> for \<open>C\<close>.
\<close>

definition propagate :: "ndarray \<Rightarrow> ndarray \<Rightarrow> error + ndarray" where
  "propagate trafo C =
     (case np_dot C (transpose_nd trafo) of
        Inl e \<Rightarrow> Inl e
      | Inr inner \<Rightarrow>
         (case np_dot trafo inner of
            Inl e \<Rightarrow> Inl e
          | Inr tct \<Rightarrow> Inr (divide_scalar tct 3)))"

definition vis2_cor :: "nat \<Rightarrow> nat \<Rightarrow> ndarray" where
  "vis2_cor Nwave Nbase = np_diag (np_ones (Nwave * Nbase))"

definition t3_cor :: "nat \<Rightarrow> ndarray \<Rightarrow> error + ndarray" where
  "t3_cor Nwave t3mat =
     (case build_trafo Nwave t3mat of
        Inl e \<Rightarrow> Inl e
      | Inr trafo \<Rightarrow> propagate trafo (np_diag (np_ones (Nwave * shape1 t3mat))))"

text \<open>
  Lines 155 and 213: \<open>np.multiply(cor, u[:, None]*u[None, :])\<close> for the flattened
  uncertainties \<open>u\<close> of one exposure.
\<close>

definition assemble_cov :: "ndarray \<Rightarrow> real list \<Rightarrow> error + ndarray" where
  "assemble_cov cor u =
     (case np_multiply (column_of u) (row_of u) of
        Inl e \<Rightarrow> Inl e
      | Inr outer \<Rightarrow> np_multiply cor outer)"

text \<open>The loop over the exposures of one file (lines 153 to 156 and 211 to 214).\<close>

fun covs_loop :: "ndarray \<Rightarrow> string \<Rightarrow> exposure list \<Rightarrow> error + ndarray list" where
  "covs_loop cor key [] = Inr []"
| "covs_loop cor key (d # ds) =
     (case getitem d key of
        Inl e \<Rightarrow> Inl e
      | Inr du \<Rightarrow>
         (case assemble_cov cor (arr_flatten du) of
            Inl e \<Rightarrow> Inl e
          | Inr cov \<Rightarrow>
             (case covs_loop cor key ds of
                Inl e \<Rightarrow> Inl e
              | Inr covs \<Rightarrow> Inr (cov # covs))))"

text \<open>
  The correlation matrix of one file, read from its first exposure: lines 148 to 151 for
  the squared visibilities, lines 199 to 209 for the closure phases.
\<close>

definition file_vis2_cor :: "exposure list \<Rightarrow> error + ndarray" where
  "file_vis2_cor ds =
     (case ds of
        [] \<Rightarrow> Inl IndexError
      | d0 # _ \<Rightarrow>
         (case getitem d0 ''wave'' of
            Inl e \<Rightarrow> Inl e
          | Inr w \<Rightarrow>
             (case getitem d0 ''vis2'' of
                Inl e \<Rightarrow> Inl e
              | Inr v \<Rightarrow> Inr (vis2_cor (arr_shape0 w) (arr_shape0 v)))))"

definition file_t3_cor :: "exposure list \<Rightarrow> error + ndarray" where
  "file_t3_cor ds =
     (case ds of
        [] \<Rightarrow> Inl IndexError
      | d0 # _ \<Rightarrow>
         (case getitem d0 ''t3mat'' of
            Inl e \<Rightarrow> Inl e
          | Inr t \<Rightarrow>
             (case getitem d0 ''wave'' of
                Inl e \<Rightarrow> Inl e
              | Inr w \<Rightarrow>
                 (case t of
                    A1 v \<Rightarrow> Inl IndexError
                  | A2 t3mat \<Rightarrow> t3_cor (arr_shape0 w) t3mat))))"

text \<open>The stack of covariance matrices of one file (up to lines 157 and 215).\<close>

definition file_vis2_covs :: "exposure list \<Rightarrow> error + ndarray list" where
  "file_vis2_covs ds =
     (case file_vis2_cor ds of
        Inl e \<Rightarrow> Inl e
      | Inr cor \<Rightarrow>
         (case covs_loop cor ''dvis2'' ds of
            Inl e \<Rightarrow> Inl e
          | Inr covs \<Rightarrow> np_array covs))"

definition file_t3_covs :: "exposure list \<Rightarrow> error + ndarray list" where
  "file_t3_covs ds =
     (case file_t3_cor ds of
        Inl e \<Rightarrow> Inl e
      | Inr cor \<Rightarrow>
         (case covs_loop cor ''dt3'' ds of
            Inl e \<Rightarrow> Inl e
          | Inr covs \<Rightarrow> np_array covs))"

section \<open>The object and the files\<close>

text \<open>
  The fields of an object of class \<open>data\<close>, and the part of the file system that the
  methods touch: the directories, and the fits files as lists of header-data units.
\<close>

record data =
  idir :: string
  fitsfiles :: "string list"
  inst_list :: "string list"
  data_list :: "exposure list list"
  inst :: string
  observables :: "string list"

record hdu =
  extname :: string
  insname :: string
  image :: "ndarray list"

record filesys =
  dirs :: "string list"
  files :: "string \<Rightarrow> hdu list option"

text \<open>
  Paths are relative to the working directory, with \<open>/\<close> as the separator; a directory is
  recorded without its trailing separators, and the empty name stands for the working
  directory itself. Permissions, links, and a regular file standing where a directory is
  expected are outside the model.
\<close>

definition strip_slashes :: "string \<Rightarrow> string" where
  "strip_slashes p = rev (dropWhile (\<lambda>c. c = CHR ''/'') (rev p))"

definition dirname :: "string \<Rightarrow> string" where
  "dirname p = strip_slashes (rev (dropWhile (\<lambda>c. c \<noteq> CHR ''/'') (rev p)))"

definition ancestors :: "string \<Rightarrow> string list" where
  "ancestors d =
     filter (\<lambda>q. q \<noteq> [])
       (map (\<lambda>i. strip_slashes (take i d))
          (filter (\<lambda>i. if i = length d then True else d ! i = CHR ''/'') [1..<length d + 1]))"

definition is_dir :: "filesys \<Rightarrow> string \<Rightarrow> bool" where
  "is_dir fs d = (d = [] \<or> d \<in> set (dirs fs))"

text \<open>\<open>os.path.exists(p)\<close>; it is false of the empty path.\<close>

definition path_exists :: "filesys \<Rightarrow> string \<Rightarrow> bool" where
  "path_exists fs p = (p \<noteq> [] \<and> (is_dir fs (strip_slashes p) \<or> files fs p \<noteq> None))"

text \<open>
  \<open>os.makedirs(p)\<close> creates the directory and the missing ones above it, and raises
  \<open>FileNotFoundError\<close> on the empty path.
\<close>

definition makedirs :: "filesys \<Rightarrow> string \<Rightarrow> error + filesys" where
  "makedirs fs p =
     (let d = strip_slashes p
      in if d = [] then Inl (FileNotFoundError p)
         else Inr (fs\<lparr>dirs := ancestors d @ dirs fs\<rparr>))"

text \<open>The guard that opens each of the three methods.\<close>

definition ensure_dir :: "filesys \<Rightarrow> string \<Rightarrow> error + filesys" where
  "ensure_dir fs odir = (if \<not> path_exists fs odir then makedirs fs odir else Inr fs)"

definition pyfits_open :: "filesys \<Rightarrow> string \<Rightarrow> error + hdu list" where
  "pyfits_open fs p = (case files fs p of None \<Rightarrow> Inl (FileNotFoundError p) | Some h \<Rightarrow> Inr h)"

text \<open>
  \<open>hdul.writeto(p, overwrite=True)\<close> replaces the file, and raises \<open>FileNotFoundError\<close>
  when the directory of \<open>p\<close> does not exist.
\<close>

definition writeto :: "filesys \<Rightarrow> string \<Rightarrow> hdu list \<Rightarrow> error + filesys" where
  "writeto fs p h =
     (if is_dir fs (dirname p) then Inr (fs\<lparr>files := (files fs)(p \<mapsto> h)\<rparr>)
      else Inl (FileNotFoundError p))"

text \<open>
  \<open>hdul += [hdu0]\<close> on the list that \<open>pyfits.open\<close> returns. The list is loaded lazily: at
  this point it holds the primary unit only, and the units that the file has after it are
  read when the list is written, so that they follow the new unit.
\<close>

definition iadd_hdu :: "hdu list \<Rightarrow> hdu \<Rightarrow> hdu list" where
  "iadd_hdu hdul h = (case hdul of [] \<Rightarrow> [h] | primary # rest \<Rightarrow> primary # h # rest)"

text \<open>
  Lines 139 to 142 and 190 to 193: the entries of \<open>self.data_list\<close> at the indices where
  \<open>self.inst_list\<close> holds the selected instrument.
\<close>

fun select_data :: "exposure list list \<Rightarrow> nat list \<Rightarrow> error + exposure list list" where
  "select_data dl [] = Inr []"
| "select_data dl (w # ws) =
     (if w < length dl
      then (case select_data dl ws of Inl e \<Rightarrow> Inl e | Inr r \<Rightarrow> Inr (dl ! w # r))
      else Inl IndexError)"

definition np_where :: "data \<Rightarrow> nat list" where
  "np_where self = filter (\<lambda>i. inst_list self ! i = inst self) [0..<length (inst_list self)]"

text \<open>The body of the loop over the files, for each of the two extensions.\<close>

definition append_cov ::
  "data \<Rightarrow> string \<Rightarrow> string \<Rightarrow> string \<Rightarrow> ndarray list \<Rightarrow> filesys \<Rightarrow> error + filesys" where
  "append_cov self odir fname ext covs fs =
     (case pyfits_open fs (idir self @ fname) of
        Inl e \<Rightarrow> Inl e
      | Inr hdul \<Rightarrow>
          writeto fs (odir @ fname)
            (iadd_hdu hdul \<lparr>extname = ext, insname = inst self, image = covs\<rparr>))"

fun vis2_files ::
  "data \<Rightarrow> string \<Rightarrow> exposure list list \<Rightarrow> nat list \<Rightarrow> filesys \<Rightarrow> error + filesys" where
  "vis2_files self odir dl [] fs = Inr fs"
| "vis2_files self odir dl (i # rest) fs =
     (case file_vis2_covs (dl ! i) of
        Inl e \<Rightarrow> Inl e
      | Inr covs \<Rightarrow>
         (case append_cov self odir (fitsfiles self ! i) ''VIS2COV'' covs fs of
            Inl e \<Rightarrow> Inl e
          | Inr fs' \<Rightarrow> vis2_files self odir dl rest fs'))"

fun t3_files ::
  "data \<Rightarrow> string \<Rightarrow> exposure list list \<Rightarrow> nat list \<Rightarrow> filesys \<Rightarrow> error + filesys" where
  "t3_files self odir dl [] fs = Inr fs"
| "t3_files self odir dl (i # rest) fs =
     (case file_t3_covs (dl ! i) of
        Inl e \<Rightarrow> Inl e
      | Inr covs \<Rightarrow>
         (case append_cov self odir (fitsfiles self ! i) ''T3COV'' covs fs of
            Inl e \<Rightarrow> Inl e
          | Inr fs' \<Rightarrow> t3_files self odir dl rest fs'))"

text \<open>The three methods. Each returns the object and the file system as it leaves them.\<close>

definition add_vis2cov :: "data \<Rightarrow> string \<Rightarrow> filesys \<Rightarrow> error + data \<times> filesys" where
  "add_vis2cov self odir fs =
     (case ensure_dir fs odir of
        Inl e \<Rightarrow> Inl e
      | Inr fs1 \<Rightarrow>
         (case select_data (data_list self) (np_where self) of
            Inl e \<Rightarrow> Inl e
          | Inr dl \<Rightarrow>
              if length (fitsfiles self) \<noteq> length dl
              then Inl (UserWarning
                     ''All input fits files should contain data of the selected instrument'')
              else (case vis2_files self odir dl [0..<length (fitsfiles self)] fs1 of
                      Inl e \<Rightarrow> Inl e
                    | Inr fs2 \<Rightarrow> Inr (self, fs2))))"

definition add_t3cov :: "data \<Rightarrow> string \<Rightarrow> filesys \<Rightarrow> error + data \<times> filesys" where
  "add_t3cov self odir fs =
     (case ensure_dir fs odir of
        Inl e \<Rightarrow> Inl e
      | Inr fs1 \<Rightarrow>
         (case select_data (data_list self) (np_where self) of
            Inl e \<Rightarrow> Inl e
          | Inr dl \<Rightarrow>
              if length (fitsfiles self) \<noteq> length dl
              then Inl (UserWarning
                     ''All input fits files should contain data of the selected instrument'')
              else (case t3_files self odir dl [0..<length (fitsfiles self)] fs1 of
                      Inl e \<Rightarrow> Inl e
                    | Inr fs2 \<Rightarrow> Inr (self, fs2))))"

definition add_cov :: "data \<Rightarrow> string \<Rightarrow> filesys \<Rightarrow> error + data \<times> filesys" where
  "add_cov self odir fs =
     (case ensure_dir fs odir of
        Inl e \<Rightarrow> Inl e
      | Inr fs1 \<Rightarrow>
         (case add_vis2cov self odir fs1 of
            Inl e \<Rightarrow> Inl e
          | Inr (self1, fs2) \<Rightarrow>
              (let temp = idir self1;
                   self2 = self1\<lparr>idir := odir\<rparr>
               in case add_t3cov self2 odir fs2 of
                    Inl e \<Rightarrow> Inl e
                  | Inr (self3, fs3) \<Rightarrow> Inr (self3\<lparr>idir := temp\<rparr>, fs3))))"

section \<open>Notions used in the statements\<close>

text \<open>
  Index \<open>i\<close> lies in block \<open>k\<close> of width \<open>N\<close>; the entry at \<open>(i, j)\<close> of the Kronecker
  product of \<open>t3mat\<close> with the identity of size \<open>N\<close>; an array whose rows agree with its
  shape; a symmetric array.
\<close>

definition in_block :: "nat \<Rightarrow> nat \<Rightarrow> nat \<Rightarrow> bool" where
  "in_block N k i = (k * N \<le> i \<and> i < (k + 1) * N)"

definition kron :: "nat \<Rightarrow> ndarray \<Rightarrow> nat \<Rightarrow> nat \<Rightarrow> real" where
  "kron N t3mat i j =
     (if i mod N = j mod N then item t3mat (i div N) (j div N) else 0)"

definition wf_nd :: "ndarray \<Rightarrow> bool" where
  "wf_nd M = (M = tabulate (shape0 M) (shape1 M) (item M))"

definition symmetric_nd :: "ndarray \<Rightarrow> bool" where
  "symmetric_nd M =
     (shape0 M = shape1 M \<and>
      list_all (\<lambda>i. list_all (\<lambda>j. item M i j = item M j i) [0..<shape0 M]) [0..<shape0 M])"

text \<open>
  The propagated correlation as the specification words it: the matrix product
  \<open>T \<cdot> C \<cdot> T\<^sup>t\<close> divided by the normalisation constant 3, for a transform with \<open>n\<close> columns.
\<close>

definition matmul_spec ::
  "nat \<Rightarrow> (nat \<Rightarrow> nat \<Rightarrow> real) \<Rightarrow> (nat \<Rightarrow> nat \<Rightarrow> real) \<Rightarrow> nat \<Rightarrow> nat \<Rightarrow> real" where
  "matmul_spec n A B i j = (\<Sum>k<n. A i k * B k j)"

definition propagate_spec ::
  "nat \<Rightarrow> (nat \<Rightarrow> nat \<Rightarrow> real) \<Rightarrow> (nat \<Rightarrow> nat \<Rightarrow> real) \<Rightarrow> nat \<Rightarrow> nat \<Rightarrow> real" where
  "propagate_spec n T C i j = matmul_spec n (matmul_spec n T C) (\<lambda>k m. T m k) i j / 3"

section \<open>An example file\<close>

text \<open>
  One file of the instrument \<open>NIRISS\<close> with one channel, three baselines, one triangle and
  two exposures, the object that holds it, and a file system with the input file.
\<close>

definition example_exposure :: "real list list \<Rightarrow> real \<Rightarrow> exposure" where
  "example_exposure dv dt =
     map_of [(''wave'', A1 [16/10]),
             (''vis2'', A2 \<lparr>shape0 = 3, shape1 = 1, rowlist = [[1/2], [1/3], [1/4]]\<rparr>),
             (''dvis2'', A2 \<lparr>shape0 = 3, shape1 = 1, rowlist = dv\<rparr>),
             (''t3mat'', A2 \<lparr>shape0 = 1, shape1 = 3, rowlist = [[1, -1, 1]]\<rparr>),
             (''dt3'', A2 \<lparr>shape0 = 1, shape1 = 1, rowlist = [[dt]]\<rparr>)]"

definition example_file :: "exposure list" where
  "example_file = [example_exposure [[1], [2], [3]] 2, example_exposure [[4], [5], [6]] 3]"

definition example_data :: data where
  "example_data =
     \<lparr>idir = ''in/'', fitsfiles = [''a.fits''], inst_list = [''NIRISS''],
      data_list = [example_file], inst = ''NIRISS'', observables = [''vis2'', ''t3'']\<rparr>"

definition example_filesys :: filesys where
  "example_filesys =
     \<lparr>dirs = [''in''],
      files = map_of [(''in/a.fits'', [\<lparr>extname = ''PRIMARY'', insname = ''NIRISS'', image = []\<rparr>])]\<rparr>"

section \<open>Facts about the arrays\<close>

lemma shape_tabulate [simp]:
  "shape0 (tabulate r c f) = r" "shape1 (tabulate r c f) = c"
  by (simp_all add: tabulate_def)

lemma item_tabulate [simp]: "i < r \<Longrightarrow> j < c \<Longrightarrow> item (tabulate r c f) i j = f i j"
  by (simp add: tabulate_def item_def)

lemma sum_list_upt: "sum_list (map f [0..<n]) = (\<Sum>k<n. f k)"
  by (simp add: interv_sum_list_conv_sum_set_nat atLeast0LessThan)

lemma shape_np_zeros [simp]: "shape0 (np_zeros r c) = r" "shape1 (np_zeros r c) = c"
  by (simp_all add: np_zeros_def)

lemma item_np_zeros [simp]: "i < r \<Longrightarrow> j < c \<Longrightarrow> item (np_zeros r c) i j = 0"
  by (simp add: np_zeros_def)

lemma length_np_ones [simp]: "length (np_ones n) = n"
  by (simp add: np_ones_def)

lemma nth_np_ones [simp]: "i < n \<Longrightarrow> np_ones n ! i = 1"
  by (simp add: np_ones_def)

lemma shape_np_diag [simp]: "shape0 (np_diag v) = length v" "shape1 (np_diag v) = length v"
  by (simp_all add: np_diag_def)

lemma item_np_diag [simp]:
  "i < length v \<Longrightarrow> j < length v \<Longrightarrow> item (np_diag v) i j = (if i = j then v ! i else 0)"
  by (simp add: np_diag_def)

lemma shape_times_scalar [simp]:
  "shape0 (times_scalar M s) = shape0 M" "shape1 (times_scalar M s) = shape1 M"
  by (simp_all add: times_scalar_def)

lemma item_times_scalar [simp]:
  "i < shape0 M \<Longrightarrow> j < shape1 M \<Longrightarrow> item (times_scalar M s) i j = item M i j * s"
  by (simp add: times_scalar_def)

lemma shape_divide_scalar [simp]:
  "shape0 (divide_scalar M s) = shape0 M" "shape1 (divide_scalar M s) = shape1 M"
  by (simp_all add: divide_scalar_def)

lemma item_divide_scalar [simp]:
  "i < shape0 M \<Longrightarrow> j < shape1 M \<Longrightarrow> item (divide_scalar M s) i j = item M i j / s"
  by (simp add: divide_scalar_def)

lemma shape_transpose_nd [simp]:
  "shape0 (transpose_nd M) = shape1 M" "shape1 (transpose_nd M) = shape0 M"
  by (simp_all add: transpose_nd_def)

lemma item_transpose_nd [simp]:
  "i < shape1 M \<Longrightarrow> j < shape0 M \<Longrightarrow> item (transpose_nd M) i j = item M j i"
  by (simp add: transpose_nd_def)

lemma np_dot_ok:
  "shape1 A = shape0 B \<Longrightarrow>
   np_dot A B = Inr (tabulate (shape0 A) (shape1 B) (\<lambda>i j. \<Sum>k<shape1 A. item A i k * item B k j))"
  by (simp add: np_dot_def sum_list_upt)

lemma bidx_less [simp]: "x < n \<Longrightarrow> bidx n x = x"
  by (auto simp: bidx_def)

lemma block_index:
  fixes k N i :: nat
  assumes "k * N \<le> i" "i < (k + 1) * N"
  shows "i div N = k" "i mod N = i - k * N"
proof -
  have N: "0 < N" using assms by (cases N) auto
  obtain a where a: "i = k * N + a" using assms(1) le_Suc_ex by blast
  with assms(2) have "a < N" by simp
  with a N show "i div N = k" "i mod N = i - k * N" by simp_all
qed

lemma setitem_slice_block:
  assumes "r0 + h \<le> shape0 M" "c0 + w \<le> shape1 M" "shape0 B = h" "shape1 B = w"
  shows "setitem_slice M r0 (r0 + h) c0 (c0 + w) B =
           Inr (tabulate (shape0 M) (shape1 M)
                 (\<lambda>i j. if r0 \<le> i \<and> i < r0 + h \<and> c0 \<le> j \<and> j < c0 + w
                        then item B (i - r0) (j - c0) else item M i j))"
proof -
  have m: "min r0 (shape0 M) = r0" "min (r0 + h) (shape0 M) = r0 + h"
          "min c0 (shape1 M) = c0" "min (c0 + w) (shape1 M) = c0 + w"
    using assms by auto
  have "\<And>i j. r0 \<le> i \<and> i < r0 + h \<and> c0 \<le> j \<and> j < c0 + w \<Longrightarrow>
          item B (bidx (shape0 B) (i - r0)) (bidx (shape1 B) (j - c0)) = item B (i - r0) (j - c0)"
    using assms by (simp add: less_diff_conv2 add.commute)
  then have "(\<lambda>i j. if r0 \<le> i \<and> i < r0 + h \<and> c0 \<le> j \<and> j < c0 + w
                  then item B (bidx (shape0 B) (i - r0)) (bidx (shape1 B) (j - c0)) else item M i j)
           = (\<lambda>i j. if r0 \<le> i \<and> i < r0 + h \<and> c0 \<le> j \<and> j < c0 + w
                  then item B (i - r0) (j - c0) else item M i j)"
    by (intro ext) auto
  then show ?thesis
    using assms by (simp add: setitem_slice_def Let_def m)
qed

section \<open>The transform is the Kronecker product\<close>

lemma block_value:
  assumes "in_block N k i" "in_block N l j"
  shows "item (times_scalar (np_diag (np_ones N)) s) (i - k * N) (j - l * N)
         = (if i mod N = j mod N then s else 0)"
proof -
  have a: "i - k * N < N" "j - l * N < N"
    using assms by (auto simp: in_block_def)
  have m: "i mod N = i - k * N" "j mod N = j - l * N"
    using assms block_index(2) by (auto simp: in_block_def)
  show ?thesis using a by (simp add: m)
qed

lemma trafo_loop_l_spec:
  assumes "(k + 1) * N \<le> shape0 T" "\<forall>l\<in>set ls. (l + 1) * N \<le> shape1 T"
  shows "\<exists>T'. trafo_loop_l N t3mat k ls T = Inr T' \<and> shape0 T' = shape0 T \<and> shape1 T' = shape1 T
           \<and> (\<forall>i<shape0 T. \<forall>j<shape1 T. item T' i j =
                 (if in_block N k i \<and> (\<exists>l\<in>set ls. in_block N l j) then kron N t3mat i j
                  else item T i j))"
  using assms
proof (induction ls arbitrary: T)
  case Nil
  then show ?case by simp
next
  case (Cons l ls)
  let ?B = "times_scalar (np_diag (np_ones N)) (item t3mat k l)"
  let ?T1 = "tabulate (shape0 T) (shape1 T)
               (\<lambda>i j. if k * N \<le> i \<and> i < k * N + N \<and> l * N \<le> j \<and> j < l * N + N
                      then item ?B (i - k * N) (j - l * N) else item T i j)"
  have s: "setitem_slice T (k * N) ((k + 1) * N) (l * N) ((l + 1) * N) ?B = Inr ?T1"
    using setitem_slice_block[of "k * N" N T "l * N" N ?B] Cons.prems
    by (simp add: add.commute)
  have "(k + 1) * N \<le> shape0 ?T1" "\<forall>l\<in>set ls. (l + 1) * N \<le> shape1 ?T1"
    using Cons.prems by simp_all
  from Cons.IH[OF this] obtain T' where T':
    "trafo_loop_l N t3mat k ls ?T1 = Inr T'" "shape0 T' = shape0 T" "shape1 T' = shape1 T"
    "\<forall>i<shape0 T. \<forall>j<shape1 T. item T' i j =
        (if in_block N k i \<and> (\<exists>l\<in>set ls. in_block N l j) then kron N t3mat i j
         else item ?T1 i j)"
    by auto
  have "item T' i j = (if in_block N k i \<and> (\<exists>l\<in>set (l # ls). in_block N l j) then kron N t3mat i j
                  else item T i j)" if ij: "i < shape0 T" "j < shape1 T" for i j
  proof (cases "in_block N k i \<and> (\<exists>l\<in>set ls. in_block N l j)")
    case True
    then show ?thesis using T'(4) ij by auto
  next
    case False
    then have e: "item T' i j = item ?T1 i j" using T'(4) ij by auto
    show ?thesis
    proof (cases "in_block N k i \<and> in_block N l j")
      case True
      then have "item ?T1 i j = item ?B (i - k * N) (j - l * N)"
        using ij by (simp add: in_block_def)
      also have "\<dots> = kron N t3mat i j"
        using True block_value[of N k i l j] block_index(1)[of k N i] block_index(1)[of l N j]
        by (simp add: kron_def in_block_def)
      finally show ?thesis using e True by simp
    next
      case F2: False
      then have "item ?T1 i j = item T i j"
        using ij by (auto simp: in_block_def)
      then show ?thesis using e False F2 by auto
    qed
  qed
  then show ?case using s T'(1-3) by simp
qed

lemma trafo_loop_k_spec:
  assumes "\<forall>k\<in>set ks. (k + 1) * N \<le> shape0 T" "Nbase * N \<le> shape1 T"
  shows "\<exists>T'. trafo_loop_k N t3mat Nbase ks T = Inr T' \<and> shape0 T' = shape0 T \<and> shape1 T' = shape1 T
           \<and> (\<forall>i<shape0 T. \<forall>j<shape1 T. item T' i j =
                 (if (\<exists>k\<in>set ks. in_block N k i) \<and> (\<exists>l<Nbase. in_block N l j)
                  then kron N t3mat i j else item T i j))"
  using assms
proof (induction ks arbitrary: T)
  case Nil
  then show ?case by simp
next
  case (Cons k ks)
  have cols: "\<forall>l\<in>set [0..<Nbase]. (l + 1) * N \<le> shape1 T"
  proof
    fix l assume "l \<in> set [0..<Nbase]"
    then have "l + 1 \<le> Nbase" by simp
    then have "(l + 1) * N \<le> Nbase * N" by (rule mult_le_mono1)
    with Cons.prems(2) show "(l + 1) * N \<le> shape1 T" by simp
  qed
  have "(k + 1) * N \<le> shape0 T" using Cons.prems(1) by simp
  from trafo_loop_l_spec[OF this cols, of t3mat] obtain T1 where T1:
    "trafo_loop_l N t3mat k [0..<Nbase] T = Inr T1" "shape0 T1 = shape0 T" "shape1 T1 = shape1 T"
    "\<forall>i<shape0 T. \<forall>j<shape1 T. item T1 i j =
        (if in_block N k i \<and> (\<exists>l\<in>set [0..<Nbase]. in_block N l j) then kron N t3mat i j
         else item T i j)"
    by blast
  have "\<forall>k\<in>set ks. (k + 1) * N \<le> shape0 T1" "Nbase * N \<le> shape1 T1"
    using Cons.prems T1(2,3) by simp_all
  from Cons.IH[OF this] obtain T' where T':
    "trafo_loop_k N t3mat Nbase ks T1 = Inr T'" "shape0 T' = shape0 T1" "shape1 T' = shape1 T1"
    "\<forall>i<shape0 T1. \<forall>j<shape1 T1. item T' i j =
        (if (\<exists>k\<in>set ks. in_block N k i) \<and> (\<exists>l<Nbase. in_block N l j)
         then kron N t3mat i j else item T1 i j)"
    by blast
  have "item T' i j =
          (if (\<exists>k\<in>set (k # ks). in_block N k i) \<and> (\<exists>l<Nbase. in_block N l j)
           then kron N t3mat i j else item T i j)" if ij: "i < shape0 T" "j < shape1 T" for i j
  proof -
    have a: "item T' i j =
        (if (\<exists>k\<in>set ks. in_block N k i) \<and> (\<exists>l<Nbase. in_block N l j)
         then kron N t3mat i j else item T1 i j)"
      using T'(4) ij T1(2,3) by simp
    have b: "item T1 i j =
        (if in_block N k i \<and> (\<exists>l<Nbase. in_block N l j) then kron N t3mat i j
         else item T i j)"
      using T1(4) ij by auto
    show ?thesis unfolding a b by auto
  qed
  then show ?case using T1(1-3) T'(1-3) by simp
qed

lemma in_some_block:
  assumes "i < N * M"
  shows "\<exists>k<M. in_block N k i"
proof -
  have N: "0 < N" using assms by (cases N) auto
  have "i div N < M" using assms N by (simp add: less_mult_imp_div_less mult.commute)
  moreover have "in_block N (i div N) i"
    using dividend_less_div_times[OF N, of i] by (simp add: in_block_def add.commute)
  ultimately show ?thesis by blast
qed

lemma build_trafo_kron:
  "\<exists>T. build_trafo N t3mat = Inr T
      \<and> shape0 T = N * shape0 t3mat \<and> shape1 T = N * shape1 t3mat
      \<and> (\<forall>i<N * shape0 t3mat. \<forall>j<N * shape1 t3mat. item T i j = kron N t3mat i j)"
proof -
  let ?T0 = "np_zeros (N * shape0 t3mat) (N * shape1 t3mat)"
  have rows: "\<forall>k\<in>set [0..<shape0 t3mat]. (k + 1) * N \<le> shape0 ?T0"
  proof
    fix k assume "k \<in> set [0..<shape0 t3mat]"
    then have "k + 1 \<le> shape0 t3mat" by simp
    then have "(k + 1) * N \<le> shape0 t3mat * N" by (rule mult_le_mono1)
    then show "(k + 1) * N \<le> shape0 ?T0" by (simp add: mult.commute)
  qed
  have cols: "shape1 t3mat * N \<le> shape1 ?T0" by (simp add: mult.commute)
  from trafo_loop_k_spec[OF rows cols, of t3mat] obtain T where T:
    "trafo_loop_k N t3mat (shape1 t3mat) [0..<shape0 t3mat] ?T0 = Inr T"
    "shape0 T = shape0 ?T0" "shape1 T = shape1 ?T0"
    "\<forall>i<shape0 ?T0. \<forall>j<shape1 ?T0. item T i j =
        (if (\<exists>k\<in>set [0..<shape0 t3mat]. in_block N k i) \<and> (\<exists>l<shape1 t3mat. in_block N l j)
         then kron N t3mat i j else item ?T0 i j)"
    by blast
  have "item T i j = kron N t3mat i j" if ij: "i < N * shape0 t3mat" "j < N * shape1 t3mat" for i j
  proof -
    from in_some_block[OF ij(1)] have "\<exists>k\<in>set [0..<shape0 t3mat]. in_block N k i" by auto
    moreover from in_some_block[OF ij(2)] have "\<exists>l<shape1 t3mat. in_block N l j" .
    ultimately show ?thesis using T(4) ij by simp
  qed
  then show ?thesis using T(1-3) by (simp add: build_trafo_def Let_def)
qed

lemma tabulate_cong:
  "(\<And>i j. i < r \<Longrightarrow> j < c \<Longrightarrow> f i j = g i j) \<Longrightarrow> tabulate r c f = tabulate r c g"
  by (simp add: tabulate_def)

lemma tabulate_empty: "r = 0 \<or> c = 0 \<Longrightarrow> tabulate r c f = tabulate r c g"
  by (auto simp: tabulate_def)

lemma wf_tabulate [simp]: "wf_nd (tabulate r c f)"
  unfolding wf_nd_def shape_tabulate by (rule tabulate_cong) simp

lemma nd_eqI:
  assumes "wf_nd A" "shape0 A = r" "shape1 A = c" "\<And>i j. i < r \<Longrightarrow> j < c \<Longrightarrow> item A i j = f i j"
  shows "A = tabulate r c f"
proof -
  have "A = tabulate r c (item A)" using assms(1) unfolding wf_nd_def assms(2,3) .
  also have "\<dots> = tabulate r c f" using assms(4) by (rule tabulate_cong)
  finally show ?thesis .
qed

lemma setitem_slice_wf: "setitem_slice M r0 r1 c0 c1 B = Inr M' \<Longrightarrow> wf_nd M'"
  by (auto simp: setitem_slice_def Let_def split: if_splits)

lemma trafo_loop_l_wf: "wf_nd T \<Longrightarrow> trafo_loop_l N t3mat k ls T = Inr T' \<Longrightarrow> wf_nd T'"
proof (induction ls arbitrary: T)
  case Nil
  then show ?case by simp
next
  case (Cons l ls)
  then show ?case
    by (auto split: sum.splits dest: setitem_slice_wf)
qed

lemma trafo_loop_k_wf: "wf_nd T \<Longrightarrow> trafo_loop_k N t3mat Nbase ks T = Inr T' \<Longrightarrow> wf_nd T'"
proof (induction ks arbitrary: T)
  case Nil
  then show ?case by simp
next
  case (Cons k ks)
  then show ?case
    by (auto split: sum.splits dest: trafo_loop_l_wf)
qed

lemma build_trafo_closed:
  "build_trafo N t3mat = Inr (tabulate (N * shape0 t3mat) (N * shape1 t3mat) (kron N t3mat))"
proof -
  from build_trafo_kron[of N t3mat] obtain T where T:
    "build_trafo N t3mat = Inr T" "shape0 T = N * shape0 t3mat" "shape1 T = N * shape1 t3mat"
    "\<forall>i<N * shape0 t3mat. \<forall>j<N * shape1 t3mat. item T i j = kron N t3mat i j"
    by blast
  have "wf_nd T"
    using T(1) trafo_loop_k_wf[of "np_zeros (N * shape0 t3mat) (N * shape1 t3mat)"]
    by (simp add: build_trafo_def Let_def np_zeros_def)
  then have "T = tabulate (N * shape0 t3mat) (N * shape1 t3mat) (kron N t3mat)"
    using T(2-4) by (intro nd_eqI) auto
  with T(1) show ?thesis by simp
qed

lemma kron_block:
  assumes "a < N" "b < N"
  shows "kron N t3mat (k * N + a) (l * N + b) = (if a = b then item t3mat k l else 0)"
  using assms by (simp add: kron_def)

lemma block_bound:
  fixes k M N a :: nat
  assumes "k < M" "a < N"
  shows "k * N + a < N * M"
proof -
  have "k * N + a < k * N + N" using assms(2) by simp
  also have "\<dots> = (k + 1) * N" by simp
  also have "\<dots> \<le> M * N" using assms(1) by (intro mult_le_mono1) simp
  finally show ?thesis by (simp add: mult.commute)
qed

section \<open>The propagated correlation\<close>

lemma propagate_items:
  assumes "shape0 C = shape1 T" "shape1 C = shape1 T"
  shows "\<exists>R. propagate T C = Inr R \<and> shape0 R = shape0 T \<and> shape1 R = shape0 T
           \<and> (\<forall>i<shape0 T. \<forall>j<shape0 T. item R i j =
                 (\<Sum>k<shape1 T. \<Sum>m<shape1 T. item T i k * item C k m * item T j m) / 3)"
proof -
  let ?n = "shape1 T"
  let ?inner = "tabulate (shape0 C) (shape0 T)
                  (\<lambda>i j. \<Sum>k<shape1 C. item C i k * item (transpose_nd T) k j)"
  let ?tct = "tabulate (shape0 T) (shape0 T) (\<lambda>i j. \<Sum>k<?n. item T i k * item ?inner k j)"
  have d1: "np_dot C (transpose_nd T) = Inr ?inner"
    using assms by (simp add: np_dot_ok)
  have d2: "np_dot T ?inner = Inr ?tct"
    using assms by (simp add: np_dot_ok)
  have p: "propagate T C = Inr (divide_scalar ?tct 3)"
    by (simp add: propagate_def d1 d2)
  have "item (divide_scalar ?tct 3) i j =
          (\<Sum>k<?n. \<Sum>m<?n. item T i k * item C k m * item T j m) / 3"
    if ij: "i < shape0 T" "j < shape0 T" for i j
  proof -
    have "item ?inner k j = (\<Sum>m<?n. item C k m * item T j m)" if "k < ?n" for k
      using that ij assms by simp
    then have "(\<Sum>k<?n. item T i k * item ?inner k j)
             = (\<Sum>k<?n. item T i k * (\<Sum>m<?n. item C k m * item T j m))"
      by (intro sum.cong) auto
    also have "\<dots> = (\<Sum>k<?n. \<Sum>m<?n. item T i k * item C k m * item T j m)"
      by (simp add: sum_distrib_left mult.assoc)
    finally show ?thesis using ij by simp
  qed
  then show ?thesis using p by simp
qed

lemma propagate_identity:
  assumes "length v = shape1 T" "\<forall>k<shape1 T. v ! k = 1"
  shows "\<exists>R. propagate T (np_diag v) = Inr R \<and> shape0 R = shape0 T \<and> shape1 R = shape0 T
           \<and> (\<forall>i<shape0 T. \<forall>j<shape0 T. item R i j =
                 (\<Sum>k<shape1 T. item T i k * item T j k) / 3)"
proof -
  let ?n = "shape1 T"
  from propagate_items[of "np_diag v" T] assms(1) obtain R where R:
    "propagate T (np_diag v) = Inr R" "shape0 R = shape0 T" "shape1 R = shape0 T"
    "\<forall>i<shape0 T. \<forall>j<shape0 T. item R i j =
        (\<Sum>k<?n. \<Sum>m<?n. item T i k * item (np_diag v) k m * item T j m) / 3"
    by auto
  have "(\<Sum>k<?n. \<Sum>m<?n. item T i k * item (np_diag v) k m * item T j m)
        = (\<Sum>k<?n. item T i k * item T j k)" for i j
  proof (rule sum.cong[OF refl])
    fix k assume "k \<in> {..<?n}"
    then have k: "k < ?n" by simp
    have "(\<Sum>m<?n. item T i k * item (np_diag v) k m * item T j m)
        = (\<Sum>m<?n. if m = k then item T i k * item T j k else 0)"
      using k assms by (intro sum.cong) auto
    also have "\<dots> = item T i k * item T j k"
      using k by simp
    finally show "(\<Sum>m<?n. item T i k * item (np_diag v) k m * item T j m)
                  = item T i k * item T j k" .
  qed
  then show ?thesis using R by simp
qed

lemma kron_sum:
  assumes N: "0 < N"
  shows "(\<Sum>p<N * M. kron N t i p * kron N t j p) =
         (if i mod N = j mod N
          then (\<Sum>l<M. item t (i div N) l * item t (j div N) l) else 0)"
proof (cases "i mod N = j mod N")
  case False
  then have z: "kron N t i p * kron N t j p = 0" for p
    by (auto simp: kron_def)
  show ?thesis by (simp only: z sum.neutral_const False if_False)
next
  case True
  let ?a = "i mod N"
  let ?g = "\<lambda>l. item t (i div N) l * item t (j div N) l"
  let ?f = "\<lambda>p. kron N t i p * kron N t j p"
  have a: "?a < N" using N by simp
  have blk: "sum ?f {l * N ..< l * N + N} = ?g l" for l
  proof -
    have "?f p = (if p = l * N + ?a then ?g l else 0)" if "p \<in> {l * N ..< l * N + N}" for p
    proof -
      from that have ib: "l * N \<le> p" "p < (l + 1) * N" by simp_all
      have dm: "p div N = l" "p mod N = p - l * N"
        using block_index[OF ib] by simp_all
      have "p = l * N + p mod N"
        using dm(2) ib(1) by simp
      then have "p mod N = ?a \<longleftrightarrow> p = l * N + ?a"
        by (metis add_left_cancel)
      then show ?thesis using True dm by (auto simp: kron_def)
    qed
    then have "sum ?f {l * N ..< l * N + N}
             = (\<Sum>p\<in>{l * N ..< l * N + N}. if p = l * N + ?a then ?g l else 0)"
      by (intro sum.cong) auto
    also have "\<dots> = ?g l" using a by simp
    finally show ?thesis .
  qed
  have "(\<Sum>p<N * M. ?f p) = (\<Sum>p<M * N. ?f p)" by (simp add: mult.commute)
  also have "\<dots> = (\<Sum>l<M. sum ?f {l * N ..< l * N + N})"
    by (rule sum.nat_group[symmetric])
  also have "\<dots> = (\<Sum>l<M. ?g l)" by (simp only: blk)
  finally show ?thesis using True by simp
qed

lemma t3_cor_items:
  "\<exists>T cor. build_trafo N t3mat = Inr T \<and> t3_cor N t3mat = Inr cor
      \<and> shape0 cor = N * shape0 t3mat \<and> shape1 cor = N * shape0 t3mat
      \<and> (\<forall>i<N * shape0 t3mat. \<forall>j<N * shape0 t3mat. item cor i j =
            (if i mod N = j mod N
             then (\<Sum>l<shape1 t3mat. item t3mat (i div N) l * item t3mat (j div N) l) else 0) / 3)"
proof -
  from build_trafo_kron[of N t3mat] obtain T where T:
    "build_trafo N t3mat = Inr T" "shape0 T = N * shape0 t3mat" "shape1 T = N * shape1 t3mat"
    "\<forall>i<N * shape0 t3mat. \<forall>j<N * shape1 t3mat. item T i j = kron N t3mat i j"
    by blast
  let ?v = "np_ones (N * shape1 t3mat)"
  have "length ?v = shape1 T" "\<forall>k<shape1 T. ?v ! k = 1"
    using T(3) by simp_all
  from propagate_identity[OF this] obtain R where R:
    "propagate T (np_diag ?v) = Inr R" "shape0 R = shape0 T" "shape1 R = shape0 T"
    "\<forall>i<shape0 T. \<forall>j<shape0 T. item R i j = (\<Sum>k<shape1 T. item T i k * item T j k) / 3"
    by blast
  have "item R i j =
          (if i mod N = j mod N
           then (\<Sum>l<shape1 t3mat. item t3mat (i div N) l * item t3mat (j div N) l) else 0) / 3"
    if ij: "i < N * shape0 t3mat" "j < N * shape0 t3mat" for i j
  proof -
    have N: "0 < N" using ij by (cases N) auto
    have "(\<Sum>k<shape1 T. item T i k * item T j k)
        = (\<Sum>k<N * shape1 t3mat. kron N t3mat i k * kron N t3mat j k)"
      unfolding T(3) using T(4) ij by (intro sum.cong) auto
    then show ?thesis using R(4) ij T(2) kron_sum[OF N, where M = "shape1 t3mat" and t = t3mat and i = i and j = j] by simp
  qed
  then show ?thesis using T R by (auto simp: t3_cor_def)
qed

section \<open>Assembling a covariance\<close>

lemma broadcast_dim_same [simp]: "broadcast_dim n n = Some n"
  by (simp add: broadcast_dim_def)

lemma broadcast_dim_range:
  assumes "broadcast_dim a b = Some r" "i < r"
  shows "bidx a i < a" "bidx b i < b"
  using assms by (auto simp: broadcast_dim_def bidx_def split: if_splits)

lemma outer_product:
  "np_multiply (column_of u) (row_of u) =
     Inr (tabulate (length u) (length u) (\<lambda>i j. u ! i * u ! j))"
proof -
  have s: "shape0 (column_of u) = length u" "shape1 (column_of u) = 1"
          "shape0 (row_of u) = 1" "shape1 (row_of u) = length u"
    by (simp_all add: column_of_def row_of_def)
  have bd: "broadcast_dim (length u) 1 = Some (length u)"
           "broadcast_dim 1 (length u) = Some (length u)"
    by (auto simp: broadcast_dim_def)
  have e: "tabulate (length u) (length u)
          (\<lambda>i j. item (column_of u) (bidx (length u) i) (bidx 1 j)
               * item (row_of u) (bidx 1 i) (bidx (length u) j))
        = tabulate (length u) (length u) (\<lambda>i j. u ! i * u ! j)"
    by (rule tabulate_cong) (auto simp: column_of_def row_of_def bidx_def)
  show ?thesis
    unfolding np_multiply_def s by (simp only: bd option.case e)
qed

lemma assemble_cov_eq:
  "assemble_cov cor u =
     np_multiply cor (tabulate (length u) (length u) (\<lambda>i j. u ! i * u ! j))"
  by (simp add: assemble_cov_def outer_product)

lemma assemble_cov_same:
  assumes "shape0 cor = length u" "shape1 cor = length u"
  shows "\<exists>cov. assemble_cov cor u = Inr cov \<and> shape0 cov = length u \<and> shape1 cov = length u
           \<and> (\<forall>i<length u. \<forall>j<length u. item cov i j = item cor i j * (u ! i * u ! j))"
proof -
  have b: "bidx (length u) i = i" if "i < length u" for i
    using that by simp
  show ?thesis
    using assms by (simp add: assemble_cov_eq np_multiply_def b)
qed

lemma assemble_cov_error:
  assumes "shape0 cor = N" "shape1 cor = N"
  shows "assemble_cov cor u = Inl ValueError \<longleftrightarrow> length u \<noteq> N \<and> N \<noteq> 1 \<and> length u \<noteq> 1"
  using assms
  by (auto simp: assemble_cov_eq np_multiply_def broadcast_dim_def split: option.splits)

section \<open>Symmetry\<close>

lemma symmetric_nd_iff:
  "symmetric_nd M \<longleftrightarrow>
     shape0 M = shape1 M \<and> (\<forall>i<shape0 M. \<forall>j<shape0 M. item M i j = item M j i)"
  by (auto simp: symmetric_nd_def list_all_iff)

lemma propagate_spec_eq:
  "propagate_spec n T C i j = (\<Sum>k<n. \<Sum>m<n. T i k * C k m * T j m) / 3"
proof -
  have "(\<Sum>m<n. (\<Sum>k<n. T i k * C k m) * T j m) = (\<Sum>m<n. \<Sum>k<n. T i k * C k m * T j m)"
    by (simp add: sum_distrib_right)
  also have "\<dots> = (\<Sum>k<n. \<Sum>m<n. T i k * C k m * T j m)"
    by (rule sum.swap)
  finally show ?thesis
    by (simp add: propagate_spec_def matmul_spec_def)
qed

lemma propagate_shapes:
  "propagate T C = Inr R \<Longrightarrow> shape0 C = shape1 T \<and> shape1 C = shape1 T"
  by (auto simp: propagate_def np_dot_def split: if_splits sum.splits)

lemma propagate_symmetric:
  assumes "symmetric_nd C" "propagate T C = Inr R"
  shows "symmetric_nd R"
proof -
  let ?n = "shape1 T"
  have sh: "shape0 C = ?n" "shape1 C = ?n"
    using propagate_shapes[OF assms(2)] by simp_all
  have symC: "item C k m = item C m k" if "k < ?n" "m < ?n" for k m
    using assms(1) that sh by (simp add: symmetric_nd_iff)
  from propagate_items[OF sh] assms(2) have R:
    "shape0 R = shape0 T" "shape1 R = shape0 T"
    "\<forall>i<shape0 T. \<forall>j<shape0 T. item R i j =
        (\<Sum>k<?n. \<Sum>m<?n. item T i k * item C k m * item T j m) / 3"
    by auto
  have "item R i j = item R j i" if ij: "i < shape0 T" "j < shape0 T" for i j
  proof -
    have "(\<Sum>k<?n. \<Sum>m<?n. item T j k * item C k m * item T i m)
        = (\<Sum>m<?n. \<Sum>k<?n. item T j k * item C k m * item T i m)"
      by (rule sum.swap)
    also have "\<dots> = (\<Sum>m<?n. \<Sum>k<?n. item T i m * item C m k * item T j k)"
      by (intro sum.cong refl) (simp add: symC mult.commute mult.left_commute)
    finally have e: "(\<Sum>k<?n. \<Sum>m<?n. item T j k * item C k m * item T i m)
        = (\<Sum>k<?n. \<Sum>m<?n. item T i k * item C k m * item T j m)" .
    have "item R i j = (\<Sum>k<?n. \<Sum>m<?n. item T i k * item C k m * item T j m) / 3"
      using R(3) ij by blast
    moreover have "item R j i = (\<Sum>k<?n. \<Sum>m<?n. item T j k * item C k m * item T i m) / 3"
      using R(3) ij by blast
    ultimately show ?thesis by (simp only: e)
  qed
  then show ?thesis using R(1,2) by (simp add: symmetric_nd_iff)
qed

lemma assemble_cov_symmetric:
  assumes "symmetric_nd C" "assemble_cov C u = Inr cov"
  shows "symmetric_nd cov"
proof -
  let ?n = "length u"
  let ?N = "shape0 C"
  let ?O = "tabulate ?n ?n (\<lambda>i j. u ! i * u ! j)"
  have sq: "shape1 C = ?N" and symC: "\<And>a b. a < ?N \<Longrightarrow> b < ?N \<Longrightarrow> item C a b = item C b a"
    using assms(1) by (simp_all add: symmetric_nd_iff)
  from assms(2) obtain r where r: "broadcast_dim ?N ?n = Some r"
    and cov: "cov = tabulate r r
       (\<lambda>i j. item C (bidx ?N i) (bidx ?N j) * item ?O (bidx ?n i) (bidx ?n j))"
    by (auto simp: assemble_cov_eq np_multiply_def sq split: option.splits)
  have "item cov i j = item cov j i" if ij: "i < r" "j < r" for i j
  proof -
    have b: "bidx ?N i < ?N" "bidx ?N j < ?N" "bidx ?n i < ?n" "bidx ?n j < ?n"
      using broadcast_dim_range[OF r] ij by simp_all
    show ?thesis
      using ij b by (simp add: cov symC[OF b(1,2)] mult.commute)
  qed
  then show ?thesis by (simp add: symmetric_nd_iff cov)
qed

section \<open>The loop over the exposures and the methods\<close>

lemma covs_loop_spec:
  "covs_loop cor key ds = Inr covs \<Longrightarrow>
     length covs = length ds \<and>
     (\<forall>j<length ds. \<exists>du. (ds ! j) key = Some du \<and>
                        assemble_cov cor (arr_flatten du) = Inr (covs ! j))"
proof (induction ds arbitrary: covs)
  case Nil
  then show ?case by simp
next
  case (Cons d ds)
  from Cons.prems obtain du cov rest where s:
    "d key = Some du" "assemble_cov cor (arr_flatten du) = Inr cov"
    "covs_loop cor key ds = Inr rest" "covs = cov # rest"
    by (auto simp: getitem_def split: option.splits sum.splits)
  from Cons.IH[OF s(3)] have IH: "length rest = length ds"
    "\<forall>j<length ds. \<exists>du. (ds ! j) key = Some du \<and>
                        assemble_cov cor (arr_flatten du) = Inr (rest ! j)"
    by simp_all
  have "\<exists>du. ((d # ds) ! j) key = Some du \<and>
                        assemble_cov cor (arr_flatten du) = Inr (covs ! j)"
    if "j < length (d # ds)" for j
  proof (cases j)
    case 0
    then show ?thesis using s by simp
  next
    case (Suc j')
    then show ?thesis using IH(2) that s(4) by simp
  qed
  then show ?case using IH(1) s(4) by simp
qed

lemma np_array_id: "np_array ms = Inr st \<Longrightarrow> st = ms"
  by (auto simp: np_array_def split: list.splits if_splits)

lemma file_vis2_cor_pinned:
  "file_vis2_cor ds = Inr cor \<Longrightarrow>
     \<exists>d0 w v. take 1 ds = [d0] \<and> d0 ''wave'' = Some w \<and> d0 ''vis2'' = Some v \<and>
              cor = vis2_cor (arr_shape0 w) (arr_shape0 v)"
  by (cases ds) (auto simp: file_vis2_cor_def getitem_def split: option.splits)

lemma file_t3_cor_pinned:
  "file_t3_cor ds = Inr cor \<Longrightarrow>
     \<exists>d0 w t3mat. take 1 ds = [d0] \<and> d0 ''wave'' = Some w \<and> d0 ''t3mat'' = Some (A2 t3mat) \<and>
              t3_cor (arr_shape0 w) t3mat = Inr cor"
  by (cases ds) (auto simp: file_t3_cor_def getitem_def split: option.splits pyarr.splits)

lemma add_vis2cov_self: "add_vis2cov self odir fs = Inr (self', fs') \<Longrightarrow> self' = self"
  by (auto simp: add_vis2cov_def split: sum.splits if_splits)

lemma add_t3cov_self: "add_t3cov self odir fs = Inr (self', fs') \<Longrightarrow> self' = self"
  by (auto simp: add_t3cov_def split: sum.splits if_splits)

text \<open>
  The output directory cannot be the empty path; a file cannot be written into a directory
  that does not exist; \<open>os.makedirs\<close> creates the directories above the one it is given.
\<close>

lemma makedirs_empty_path: "ensure_dir fs '''' = Inl (FileNotFoundError '''')"
  by (simp add: ensure_dir_def path_exists_def makedirs_def strip_slashes_def)

lemma writeto_missing_directory:
  "writeto example_filesys ''out/sub/a.fits'' h = Inl (FileNotFoundError ''out/sub/a.fits'')"
  by (simp add: writeto_def is_dir_def dirname_def strip_slashes_def example_filesys_def)

lemma makedirs_nested:
  "map_sum id dirs (ensure_dir example_filesys ''out/sub/'') = Inr [''out'', ''out/sub'', ''in'']"
  by code_simp

section \<open>The scenarios of the specification\<close>

text \<open>
  One triangle of three baselines has correlation 1 with itself; two triangles that share
  one baseline have correlation \<open>1/3\<close>; the identity correlation with the uncertainties
  \<open>[0.1, 0.2, 0.3, 0.4]\<close> gives the diagonal covariance of their squares.
\<close>

lemma scenario_single_triangle:
  "t3_cor 1 \<lparr>shape0 = 1, shape1 = 3, rowlist = [[1, 1, 1]]\<rparr>
     = Inr \<lparr>shape0 = 1, shape1 = 1, rowlist = [[1]]\<rparr>"
  by code_simp

lemma scenario_shared_baseline:
  "t3_cor 1 \<lparr>shape0 = 2, shape1 = 4, rowlist = [[1, 1, 1, 0], [1, 0, 0, 1]]\<rparr>
     = Inr \<lparr>shape0 = 2, shape1 = 2, rowlist = [[1, 1/3], [1/3, 2/3]]\<rparr>"
  by code_simp

lemma scenario_diagonal_covariance:
  "assemble_cov (vis2_cor 2 2) [1/10, 2/10, 3/10, 4/10]
     = Inr \<lparr>shape0 = 4, shape1 = 4,
            rowlist = [[1/100, 0, 0, 0], [0, 4/100, 0, 0], [0, 0, 9/100, 0], [0, 0, 0, 16/100]]\<rparr>"
  by code_simp

section \<open>The claims\<close>

text \<open>
  C6. For every \<open>n \<ge> 1\<close>, here \<open>n = Nwave * Nbase\<close>, the correlation matrix of the
  baseline observables (line 151) is the \<open>n \<times> n\<close> identity: its shape is \<open>(n, n)\<close>, its entry
  at \<open>(i, j)\<close> is 1 when \<open>i = j\<close> and 0 otherwise, and its rows are exactly those of the
  identity.
\<close>

theorem identity_correlation_model:
  "1 \<le> Nwave * Nbase \<Longrightarrow>
     shape0 (vis2_cor Nwave Nbase) = Nwave * Nbase \<and>
     shape1 (vis2_cor Nwave Nbase) = Nwave * Nbase \<and>
     (\<forall>i<Nwave * Nbase. \<forall>j<Nwave * Nbase.
        item (vis2_cor Nwave Nbase) i j = (if i = j then 1 else 0)) \<and>
     rowlist (vis2_cor Nwave Nbase) =
       map (\<lambda>i. map (\<lambda>j. if i = j then 1 else 0) [0..<Nwave * Nbase]) [0..<Nwave * Nbase]"
  by (simp add: vis2_cor_def) (simp add: np_diag_def tabulate_def)

theorem identity_correlation_model_witness:
  "(1::nat) \<le> 2 * 2 \<and> shape0 (vis2_cor 2 2) = 4 \<and> shape1 (vis2_cor 2 2) = 4 \<and>
   item (vis2_cor 2 2) 1 1 = 1 \<and> item (vis2_cor 2 2) 1 2 = 0"
  using identity_correlation_model[of 2 2] by simp

text \<open>
  C3. For every \<open>Nwave \<ge> 1\<close> and every incidence matrix of shape \<open>(Ntria, Nbase)\<close>, the
  loops of lines 204 to 207 return a transform of shape \<open>(Nwave * Ntria, Nwave * Nbase)\<close>
  whose block at position \<open>(k, l)\<close> is \<open>t3mat[k, l]\<close> times the identity of size \<open>Nwave\<close>:
  the entry at row \<open>k * Nwave + a\<close>, column \<open>l * Nwave + b\<close> is \<open>t3mat[k, l]\<close> when
  \<open>a = b\<close> and 0 otherwise, so no entry couples two channels.
\<close>

theorem triangle_transform_blocks:
  "1 \<le> Nwave \<Longrightarrow>
     \<exists>T. build_trafo Nwave t3mat = Inr T \<and>
         shape0 T = Nwave * shape0 t3mat \<and> shape1 T = Nwave * shape1 t3mat \<and>
         (\<forall>k<shape0 t3mat. \<forall>l<shape1 t3mat. \<forall>a<Nwave. \<forall>b<Nwave.
            item T (k * Nwave + a) (l * Nwave + b) = (if a = b then item t3mat k l else 0))"
  by (simp add: build_trafo_closed block_bound kron_block)

theorem triangle_transform_blocks_witness:
  "(1::nat) \<le> 2 \<and>
   (\<exists>T. build_trafo 2 \<lparr>shape0 = 1, shape1 = 3, rowlist = [[1, -1, 1]]\<rparr> = Inr T \<and>
        shape0 T = 2 \<and> shape1 T = 6 \<and> item T 1 3 = -1 \<and> item T 1 2 = 0)"
proof -
  let ?m = "\<lparr>shape0 = 1, shape1 = 3, rowlist = [[1, -1, 1]]\<rparr>"
  from triangle_transform_blocks[of 2 ?m] obtain T where T:
    "build_trafo 2 ?m = Inr T" "shape0 T = 2" "shape1 T = 6"
    "\<forall>k<1. \<forall>l<3. \<forall>a<2. \<forall>b<2.
        item T (k * 2 + a) (l * 2 + b) = (if a = b then item ?m k l else 0)"
    by auto
  have "item T (0 * 2 + 1) (1 * 2 + 1) = item ?m 0 1"
    using T(4)[rule_format, of 0 1 1 1] by simp
  moreover have "item T (0 * 2 + 1) (1 * 2 + 0) = 0"
    using T(4)[rule_format, of 0 1 1 0] by simp
  ultimately show ?thesis using T(1-3) by (simp add: item_def)
qed

text \<open>
  C4, as the code has it. The construction of the transform checks no dimension and never
  fails on a two-dimensional incidence matrix. With \<open>Nwave = 0\<close>, or with no triangle or no
  baseline, it returns the all-zero array of shape \<open>(Nwave * Ntria, Nwave * Nbase)\<close>, which
  has no entry. The claim as stated, that \<open>Nwave = 0\<close> fails, is refuted below at the
  incidence matrix \<open>[[1, 1, 1]]\<close>.
\<close>

theorem triangle_transform_no_validation:
  "(\<exists>T. build_trafo Nwave t3mat = Inr T \<and>
        shape0 T = Nwave * shape0 t3mat \<and> shape1 T = Nwave * shape1 t3mat) \<and>
   (Nwave = 0 \<or> shape0 t3mat = 0 \<or> shape1 t3mat = 0 \<longrightarrow>
      build_trafo Nwave t3mat = Inr (np_zeros (Nwave * shape0 t3mat) (Nwave * shape1 t3mat)))"
proof -
  have "tabulate (Nwave * shape0 t3mat) (Nwave * shape1 t3mat) (kron Nwave t3mat)
        = np_zeros (Nwave * shape0 t3mat) (Nwave * shape1 t3mat)"
    if "Nwave = 0 \<or> shape0 t3mat = 0 \<or> shape1 t3mat = 0"
    unfolding np_zeros_def using that by (intro tabulate_empty) auto
  then show ?thesis by (simp add: build_trafo_closed)
qed

theorem triangle_transform_no_validation_witness:
  "build_trafo 0 \<lparr>shape0 = 1, shape1 = 3, rowlist = [[1, 1, 1]]\<rparr> = Inr (np_zeros 0 0)"
  using triangle_transform_no_validation[of 0 "\<lparr>shape0 = 1, shape1 = 3, rowlist = [[1, 1, 1]]\<rparr>"]
  by simp

theorem triangle_transform_nwave0_counterexample:
  "build_trafo 0 \<lparr>shape0 = 1, shape1 = 3, rowlist = [[1, 1, 1]]\<rparr>
     = Inr \<lparr>shape0 = 0, shape1 = 0, rowlist = []\<rparr>"
  by code_simp

text \<open>
  C1, as the code has it. For the flattened uncertainties \<open>u\<close> of an exposure, of the length
  of the correlation matrix, the assembled covariance has \<open>u[i]\<^sup>2\<close> on its diagonal when the
  correlation is the identity of the baseline observables. With the propagated triangle
  correlation the diagonal entry is \<open>(\<Sum>l. t3mat[k, l]\<^sup>2) / 3 * u[i]\<^sup>2\<close>, where \<open>k = i div Nwave\<close>
  is the triangle of index \<open>i\<close>; it is \<open>u[i]\<^sup>2\<close> when the squares of row \<open>k\<close> of the incidence
  matrix sum to 3, as they do for a triangle of three baselines with coefficients \<open>\<plusminus>1\<close>.
  The claim as stated, for every correlation matrix that the engine produces, fails at the
  incidence matrix \<open>[[1, 1, 1, 0], [1, 0, 0, 1]]\<close>, whose second row gives \<open>2/3 * u[1]\<^sup>2\<close>.
\<close>

theorem covariance_diagonal:
  "(length u = Nwave * Nbase \<longrightarrow>
      (\<exists>cov. assemble_cov (vis2_cor Nwave Nbase) u = Inr cov \<and>
             (\<forall>i<length u. item cov i i = (u ! i)\<^sup>2))) \<and>
   (length u = Nwave * shape0 t3mat \<longrightarrow>
      (\<exists>cor cov. t3_cor Nwave t3mat = Inr cor \<and> assemble_cov cor u = Inr cov \<and>
         (\<forall>i<length u.
            item cov i i = (\<Sum>l<shape1 t3mat. (item t3mat (i div Nwave) l)\<^sup>2) / 3 * (u ! i)\<^sup>2 \<and>
            ((\<Sum>l<shape1 t3mat. (item t3mat (i div Nwave) l)\<^sup>2) = 3 \<longrightarrow>
               item cov i i = (u ! i)\<^sup>2))))"
proof (intro conjI impI)
  assume len: "length u = Nwave * Nbase"
  have "shape0 (vis2_cor Nwave Nbase) = length u" "shape1 (vis2_cor Nwave Nbase) = length u"
    using len by (simp_all add: vis2_cor_def)
  from assemble_cov_same[OF this] obtain cov where cov:
    "assemble_cov (vis2_cor Nwave Nbase) u = Inr cov"
    "\<forall>i<length u. \<forall>j<length u. item cov i j = item (vis2_cor Nwave Nbase) i j * (u ! i * u ! j)"
    by blast
  have "item cov i i = (u ! i)\<^sup>2" if "i < length u" for i
    using cov(2) that len by (simp add: vis2_cor_def power2_eq_square)
  with cov(1) show "\<exists>cov. assemble_cov (vis2_cor Nwave Nbase) u = Inr cov \<and>
             (\<forall>i<length u. item cov i i = (u ! i)\<^sup>2)"
    by blast
next
  assume len: "length u = Nwave * shape0 t3mat"
  from t3_cor_items[of Nwave t3mat] obtain cor where cor:
    "t3_cor Nwave t3mat = Inr cor" "shape0 cor = length u" "shape1 cor = length u"
    "\<forall>i<length u. \<forall>j<length u. item cor i j =
        (if i mod Nwave = j mod Nwave
         then (\<Sum>l<shape1 t3mat. item t3mat (i div Nwave) l * item t3mat (j div Nwave) l)
         else 0) / 3"
    unfolding len by blast
  from assemble_cov_same[OF cor(2,3)] obtain cov where cov:
    "assemble_cov cor u = Inr cov"
    "\<forall>i<length u. \<forall>j<length u. item cov i j = item cor i j * (u ! i * u ! j)"
    by blast
  have d: "item cov i i = (\<Sum>l<shape1 t3mat. (item t3mat (i div Nwave) l)\<^sup>2) / 3 * (u ! i)\<^sup>2"
    if "i < length u" for i
    using cov(2) cor(4) that by (simp add: power2_eq_square)
  have "item cov i i = (u ! i)\<^sup>2"
    if "i < length u" "(\<Sum>l<shape1 t3mat. (item t3mat (i div Nwave) l)\<^sup>2) = 3" for i
    using d[OF that(1)] that(2) by simp
  with d cor(1) cov(1)
  show "\<exists>cor cov. t3_cor Nwave t3mat = Inr cor \<and> assemble_cov cor u = Inr cov \<and>
         (\<forall>i<length u.
            item cov i i = (\<Sum>l<shape1 t3mat. (item t3mat (i div Nwave) l)\<^sup>2) / 3 * (u ! i)\<^sup>2 \<and>
            ((\<Sum>l<shape1 t3mat. (item t3mat (i div Nwave) l)\<^sup>2) = 3 \<longrightarrow>
               item cov i i = (u ! i)\<^sup>2))"
    by blast
qed

theorem covariance_diagonal_witness:
  "(\<exists>cov. assemble_cov (vis2_cor 1 2) [1/10, 2/10] = Inr cov \<and> item cov 1 1 = (2/10)\<^sup>2) \<and>
   (\<exists>cor cov. t3_cor 1 \<lparr>shape0 = 2, shape1 = 3, rowlist = [[1, -1, 1], [1, 1, -1]]\<rparr> = Inr cor \<and>
      assemble_cov cor [1/10, 2/10] = Inr cov \<and> item cov 1 1 = (2/10)\<^sup>2)"
proof -
  let ?u = "[1/10, 2/10] :: real list"
  let ?M = "\<lparr>shape0 = 2, shape1 = 3, rowlist = [[1, -1, 1], [1, 1, -1]]\<rparr>"
  note th = covariance_diagonal[of ?u 1 2 ?M]
  have h1: "length ?u = 1 * 2" by simp
  have h2: "length ?u = 1 * shape0 ?M" by simp
  have s: "(\<Sum>l<shape1 ?M. (item ?M (1 div 1) l)\<^sup>2) = 3" by code_simp
  from th h1 obtain cov where cov:
    "assemble_cov (vis2_cor 1 2) ?u = Inr cov" "\<forall>i<length ?u. item cov i i = (?u ! i)\<^sup>2"
    by blast
  from cov(2) have "item cov 1 1 = (?u ! 1)\<^sup>2" by simp
  then have a: "\<exists>cov. assemble_cov (vis2_cor 1 2) ?u = Inr cov \<and> item cov 1 1 = (2/10)\<^sup>2"
    using cov(1) by auto
  from th h2 obtain cor cov' where c:
    "t3_cor 1 ?M = Inr cor" "assemble_cov cor ?u = Inr cov'"
    "\<forall>i<length ?u. item cov' i i = (\<Sum>l<shape1 ?M. (item ?M (i div 1) l)\<^sup>2) / 3 * (?u ! i)\<^sup>2 \<and>
        ((\<Sum>l<shape1 ?M. (item ?M (i div 1) l)\<^sup>2) = 3 \<longrightarrow> item cov' i i = (?u ! i)\<^sup>2)"
    by blast
  from c(3) have "(\<Sum>l<shape1 ?M. (item ?M (1 div 1) l)\<^sup>2) = 3 \<longrightarrow> item cov' 1 1 = (?u ! 1)\<^sup>2"
    by simp
  with s have "item cov' 1 1 = (?u ! 1)\<^sup>2" by blast
  then have "item cov' 1 1 = (2/10)\<^sup>2" by simp
  with c(1,2) a show ?thesis by blast
qed

theorem covariance_diagonal_counterexample:
  "t3_cor 1 \<lparr>shape0 = 2, shape1 = 4, rowlist = [[1, 1, 1, 0], [1, 0, 0, 1]]\<rparr>
     = Inr \<lparr>shape0 = 2, shape1 = 2, rowlist = [[1, 1/3], [1/3, 2/3]]\<rparr> \<and>
   assemble_cov \<lparr>shape0 = 2, shape1 = 2, rowlist = [[1, 1/3], [1/3, 2/3]]\<rparr> [1, 2]
     = Inr \<lparr>shape0 = 2, shape1 = 2, rowlist = [[1, 2/3], [2/3, 8/3]]\<rparr> \<and>
   item \<lparr>shape0 = 2, shape1 = 2, rowlist = [[1, 2/3], [2/3, 8/3]]\<rparr> 1 1 \<noteq> ([1, 2] ! 1)\<^sup>2"
  by code_simp

text \<open>
  C2. For every base correlation \<open>C\<close> of size \<open>Nwave * Nbase\<close> and every transform \<open>T\<close> of
  shape \<open>(Nwave * Ntria, Nwave * Nbase)\<close>, the expression of line 209 returns the matrix
  \<open>(T \<cdot> C \<cdot> T\<^sup>t) / 3\<close> of the specification, of shape \<open>(Nwave * Ntria, Nwave * Ntria)\<close>. The
  program evaluates it at the transform of lines 204 to 207 and the identity, and its
  correlation matrix is that instance.
\<close>

theorem propagated_correlation_formula:
  "(shape0 T = Nwave * Ntria \<and> shape1 T = Nwave * Nbase \<and>
    shape0 C = Nwave * Nbase \<and> shape1 C = Nwave * Nbase \<longrightarrow>
      (\<exists>R. propagate T C = Inr R \<and> shape0 R = Nwave * Ntria \<and> shape1 R = Nwave * Ntria \<and>
           (\<forall>i<Nwave * Ntria. \<forall>j<Nwave * Ntria.
              item R i j = propagate_spec (Nwave * Nbase) (item T) (item C) i j))) \<and>
   (\<exists>T0 cor. build_trafo Nwave t3mat = Inr T0 \<and> t3_cor Nwave t3mat = Inr cor \<and>
        shape0 cor = Nwave * shape0 t3mat \<and> shape1 cor = Nwave * shape0 t3mat \<and>
        (\<forall>i<Nwave * shape0 t3mat. \<forall>j<Nwave * shape0 t3mat.
           item cor i j =
             propagate_spec (Nwave * shape1 t3mat) (item T0)
               (item (np_diag (np_ones (Nwave * shape1 t3mat)))) i j))"
proof (intro conjI impI)
  assume a: "shape0 T = Nwave * Ntria \<and> shape1 T = Nwave * Nbase \<and>
    shape0 C = Nwave * Nbase \<and> shape1 C = Nwave * Nbase"
  then have "shape0 C = shape1 T" "shape1 C = shape1 T" by simp_all
  from propagate_items[OF this] a
  show "\<exists>R. propagate T C = Inr R \<and> shape0 R = Nwave * Ntria \<and> shape1 R = Nwave * Ntria \<and>
           (\<forall>i<Nwave * Ntria. \<forall>j<Nwave * Ntria.
              item R i j = propagate_spec (Nwave * Nbase) (item T) (item C) i j)"
    by (simp add: propagate_spec_eq)
next
  let ?I = "np_diag (np_ones (Nwave * shape1 t3mat))"
  from build_trafo_kron[of Nwave t3mat] obtain T0 where T0:
    "build_trafo Nwave t3mat = Inr T0" "shape0 T0 = Nwave * shape0 t3mat"
    "shape1 T0 = Nwave * shape1 t3mat"
    by blast
  have "shape0 ?I = shape1 T0" "shape1 ?I = shape1 T0"
    using T0(3) by simp_all
  from propagate_items[OF this] obtain R where R:
    "propagate T0 ?I = Inr R" "shape0 R = shape0 T0" "shape1 R = shape0 T0"
    "\<forall>i<shape0 T0. \<forall>j<shape0 T0. item R i j =
       (\<Sum>k<shape1 T0. \<Sum>m<shape1 T0. item T0 i k * item ?I k m * item T0 j m) / 3"
    by blast
  have "t3_cor Nwave t3mat = Inr R"
    by (simp add: t3_cor_def T0(1) R(1))
  with T0 R
  show "\<exists>T0 cor. build_trafo Nwave t3mat = Inr T0 \<and> t3_cor Nwave t3mat = Inr cor \<and>
        shape0 cor = Nwave * shape0 t3mat \<and> shape1 cor = Nwave * shape0 t3mat \<and>
        (\<forall>i<Nwave * shape0 t3mat. \<forall>j<Nwave * shape0 t3mat.
           item cor i j = propagate_spec (Nwave * shape1 t3mat) (item T0) (item ?I) i j)"
    by (simp add: propagate_spec_eq)
qed

theorem propagated_correlation_formula_witness:
  "\<exists>R. propagate \<lparr>shape0 = 2, shape1 = 4, rowlist = [[1, 1, 1, 0], [1, 0, 0, 1]]\<rparr>
          (np_diag (np_ones 4)) = Inr R \<and>
       shape0 R = 2 \<and> shape1 R = 2 \<and>
       item R 0 1 = propagate_spec 4
          (item \<lparr>shape0 = 2, shape1 = 4, rowlist = [[1, 1, 1, 0], [1, 0, 0, 1]]\<rparr>)
          (item (np_diag (np_ones 4))) 0 1"
proof -
  let ?T = "\<lparr>shape0 = 2, shape1 = 4, rowlist = [[1, 1, 1, 0], [1, 0, 0, 1]]\<rparr>"
  let ?C = "np_diag (np_ones 4)"
  have h: "shape0 ?T = 1 * 2 \<and> shape1 ?T = 1 * 4 \<and> shape0 ?C = 1 * 4 \<and> shape1 ?C = 1 * 4"
    by simp
  from propagated_correlation_formula[of ?T 1 2 4 ?C] h obtain R where R:
    "propagate ?T ?C = Inr R" "shape0 R = 1 * 2" "shape1 R = 1 * 2"
    "\<forall>i<1 * 2. \<forall>j<1 * 2. item R i j = propagate_spec (1 * 4) (item ?T) (item ?C) i j"
    by blast
  from R(4) have "item R 0 1 = propagate_spec (1 * 4) (item ?T) (item ?C) 0 1"
    by simp
  with R(1-3) show ?thesis by simp
qed

text \<open>
  C5, as the code has it. For a correlation matrix of size \<open>N\<close>, assembling the covariance
  fails, with numpy's \<open>ValueError\<close> for shapes that cannot be broadcast, exactly when the
  length of \<open>u\<close> differs from \<open>N\<close> and neither of the two is 1. When one of them is 1 the
  operands are broadcast and a matrix is returned. The claim as stated, that every length
  other than \<open>N\<close> fails, is refuted at size 4 and length 1.
\<close>

theorem shape_mismatch_broadcast:
  "shape0 C = N \<and> shape1 C = N \<longrightarrow>
     (assemble_cov C u = Inl ValueError \<longleftrightarrow> length u \<noteq> N \<and> N \<noteq> 1 \<and> length u \<noteq> 1) \<and>
     (length u = N \<or> N = 1 \<or> length u = 1 \<longrightarrow> (\<exists>cov. assemble_cov C u = Inr cov))"
proof
  assume a: "shape0 C = N \<and> shape1 C = N"
  then have e: "assemble_cov C u = Inl ValueError \<longleftrightarrow> length u \<noteq> N \<and> N \<noteq> 1 \<and> length u \<noteq> 1"
    using assemble_cov_error[of C N u] by simp
  have "\<exists>cov. assemble_cov C u = Inr cov" if "length u = N \<or> N = 1 \<or> length u = 1"
    using that a
    by (auto simp: assemble_cov_eq np_multiply_def broadcast_dim_def split: option.splits)
  with e show "(assemble_cov C u = Inl ValueError \<longleftrightarrow> length u \<noteq> N \<and> N \<noteq> 1 \<and> length u \<noteq> 1) \<and>
     (length u = N \<or> N = 1 \<or> length u = 1 \<longrightarrow> (\<exists>cov. assemble_cov C u = Inr cov))"
    by blast
qed

theorem shape_mismatch_broadcast_witness:
  "assemble_cov (vis2_cor 2 2) [1, 2, 3] = Inl ValueError"
  using shape_mismatch_broadcast[of "vis2_cor 2 2" 4 "[1, 2, 3]"]
  by (simp add: vis2_cor_def)

theorem shape_mismatch_broadcast_counterexample:
  "length [2::real] \<noteq> 4 \<and> shape0 (vis2_cor 2 2) = 4 \<and> shape1 (vis2_cor 2 2) = 4 \<and>
   assemble_cov (vis2_cor 2 2) [2]
     = Inr \<lparr>shape0 = 4, shape1 = 4,
            rowlist = [[4, 0, 0, 0], [0, 4, 0, 0], [0, 0, 4, 0], [0, 0, 0, 4]]\<rparr>"
  by code_simp

text \<open>
  C8. If the base correlation is symmetric, so is the propagated correlation
  \<open>(T \<cdot> C \<cdot> T\<^sup>t) / 3\<close>; and the assembled covariance is symmetric whenever the correlation
  matrix is.
\<close>

theorem symmetry_preserved:
  "(symmetric_nd C \<and> propagate T C = Inr R \<longrightarrow> symmetric_nd R) \<and>
   (symmetric_nd C \<and> assemble_cov C u = Inr cov \<longrightarrow> symmetric_nd cov)"
  using propagate_symmetric assemble_cov_symmetric by blast

theorem symmetry_preserved_witness:
  "symmetric_nd (np_diag (np_ones 4)) \<and>
   propagate \<lparr>shape0 = 2, shape1 = 4, rowlist = [[1, 1, 1, 0], [1, 0, 0, 1]]\<rparr>
      (np_diag (np_ones 4)) = Inr \<lparr>shape0 = 2, shape1 = 2, rowlist = [[1, 1/3], [1/3, 2/3]]\<rparr> \<and>
   symmetric_nd \<lparr>shape0 = 2, shape1 = 2, rowlist = [[1, 1/3], [1/3, 2/3]]\<rparr> \<and>
   assemble_cov \<lparr>shape0 = 2, shape1 = 2, rowlist = [[1, 1/3], [1/3, 2/3]]\<rparr> [1, 2]
      = Inr \<lparr>shape0 = 2, shape1 = 2, rowlist = [[1, 2/3], [2/3, 8/3]]\<rparr> \<and>
   symmetric_nd \<lparr>shape0 = 2, shape1 = 2, rowlist = [[1, 2/3], [2/3, 8/3]]\<rparr>"
proof -
  let ?I = "np_diag (np_ones 4)"
  let ?T = "\<lparr>shape0 = 2, shape1 = 4, rowlist = [[1, 1, 1, 0], [1, 0, 0, 1]]\<rparr>"
  let ?R = "\<lparr>shape0 = 2, shape1 = 2, rowlist = [[1, 1/3], [1/3, 2/3]]\<rparr>"
  let ?cov = "\<lparr>shape0 = 2, shape1 = 2, rowlist = [[1, 2/3], [2/3, 8/3]]\<rparr>"
  have a: "symmetric_nd ?I" by code_simp
  have b: "propagate ?T ?I = Inr ?R" by code_simp
  have c: "assemble_cov ?R [1, 2] = Inr ?cov" by code_simp
  from symmetry_preserved[of ?I ?T ?R "[1, 2]"] a b have d: "symmetric_nd ?R" by blast
  from symmetry_preserved[of ?R ?T ?R "[1, 2]" ?cov] d c have "symmetric_nd ?cov" by blast
  with a b c d show ?thesis by blast
qed

text \<open>
  C9. In the correlation matrix of the closure phases, propagated from the identity, the
  entry at row \<open>k * Nwave + a\<close>, column \<open>l * Nwave + b\<close> is 0 for all triangles \<open>k\<close>, \<open>l\<close> and
  all channels \<open>a \<noteq> b\<close> below \<open>Nwave\<close>.
\<close>

theorem no_cross_wavelength_correlation:
  "\<exists>cor. t3_cor Nwave t3mat = Inr cor \<and>
     (\<forall>k<shape0 t3mat. \<forall>l<shape0 t3mat. \<forall>a<Nwave. \<forall>b<Nwave.
        a \<noteq> b \<longrightarrow> item cor (k * Nwave + a) (l * Nwave + b) = 0)"
proof -
  from t3_cor_items[of Nwave t3mat] obtain cor where cor:
    "t3_cor Nwave t3mat = Inr cor"
    "\<forall>i<Nwave * shape0 t3mat. \<forall>j<Nwave * shape0 t3mat. item cor i j =
        (if i mod Nwave = j mod Nwave
         then (\<Sum>l<shape1 t3mat. item t3mat (i div Nwave) l * item t3mat (j div Nwave) l)
         else 0) / 3"
    by blast
  have "item cor (k * Nwave + a) (l * Nwave + b) = 0"
    if "k < shape0 t3mat" "l < shape0 t3mat" "a < Nwave" "b < Nwave" "a \<noteq> b" for k l a b
  proof -
    let ?i = "k * Nwave + a" and ?j = "l * Nwave + b"
    have "?i < Nwave * shape0 t3mat" "?j < Nwave * shape0 t3mat"
      using that by (simp_all add: block_bound)
    with cor(2) have "item cor ?i ?j =
        (if ?i mod Nwave = ?j mod Nwave
         then (\<Sum>l<shape1 t3mat. item t3mat (?i div Nwave) l * item t3mat (?j div Nwave) l)
         else 0) / 3"
      by blast
    moreover have "?i mod Nwave = a" "?j mod Nwave = b"
      using that by simp_all
    ultimately show ?thesis using that(5) by simp
  qed
  with cor(1) show ?thesis by blast
qed

theorem no_cross_wavelength_correlation_witness:
  "\<exists>cor. t3_cor 2 \<lparr>shape0 = 1, shape1 = 3, rowlist = [[1, -1, 1]]\<rparr> = Inr cor \<and>
     item cor 0 1 = 0 \<and> item cor 1 0 = 0"
proof -
  let ?M = "\<lparr>shape0 = 1, shape1 = 3, rowlist = [[1, -1, 1]]\<rparr>"
  from no_cross_wavelength_correlation[of 2 ?M] obtain cor where cor:
    "t3_cor 2 ?M = Inr cor"
    "\<forall>k<shape0 ?M. \<forall>l<shape0 ?M. \<forall>a<2. \<forall>b<2.
        a \<noteq> b \<longrightarrow> item cor (k * 2 + a) (l * 2 + b) = 0"
    by blast
  have "item cor (0 * 2 + 0) (0 * 2 + 1) = 0"
    using cor(2)[rule_format, of 0 0 0 1] by simp
  moreover have "item cor (0 * 2 + 1) (0 * 2 + 0) = 0"
    using cor(2)[rule_format, of 0 0 1 0] by simp
  ultimately show ?thesis using cor(1) by auto
qed

text \<open>
  C7. For one file and one kind of observable, the correlation matrix is fixed by the
  geometry that the first exposure of the file declares and by nothing else: for the
  squared visibilities it is the identity of size \<open>Nwave * Nbase\<close>, with \<open>Nwave\<close> and \<open>Nbase\<close>
  the first dimensions of \<open>wave\<close> and \<open>vis2\<close>; for the closure phases it is the correlation
  propagated from \<open>Nwave\<close> and the incidence matrix \<open>t3mat\<close>. No uncertainty of any exposure
  enters it. The loop returns as many covariance matrices as the file has exposures, and
  the matrix at position \<open>j\<close> is the one assembled from that single correlation matrix and
  the uncertainties of exposure \<open>j\<close>: one per exposure, in the order of the exposures.
\<close>

theorem batch_one_covariance_per_exposure:
  "(file_vis2_covs ds = Inr covs \<longrightarrow>
      (\<exists>d0 w v. take 1 ds = [d0] \<and> d0 ''wave'' = Some w \<and> d0 ''vis2'' = Some v \<and>
         length covs = length ds \<and>
         (\<forall>j<length ds. \<exists>du. (ds ! j) ''dvis2'' = Some du \<and>
            assemble_cov (vis2_cor (arr_shape0 w) (arr_shape0 v)) (arr_flatten du)
              = Inr (covs ! j)))) \<and>
   (file_t3_covs ds = Inr covs \<longrightarrow>
      (\<exists>d0 w t3mat cor. take 1 ds = [d0] \<and> d0 ''wave'' = Some w \<and>
         d0 ''t3mat'' = Some (A2 t3mat) \<and> t3_cor (arr_shape0 w) t3mat = Inr cor \<and>
         length covs = length ds \<and>
         (\<forall>j<length ds. \<exists>du. (ds ! j) ''dt3'' = Some du \<and>
            assemble_cov cor (arr_flatten du) = Inr (covs ! j))))"
proof (intro conjI impI)
  assume a: "file_vis2_covs ds = Inr covs"
  then obtain cor cs where c: "file_vis2_cor ds = Inr cor"
    "covs_loop cor ''dvis2'' ds = Inr cs" "np_array cs = Inr covs"
    by (auto simp: file_vis2_covs_def split: sum.splits)
  have e: "covs = cs" using np_array_id[OF c(3)] .
  from file_vis2_cor_pinned[OF c(1)] obtain d0 w v where p:
    "take 1 ds = [d0]" "d0 ''wave'' = Some w" "d0 ''vis2'' = Some v"
    "cor = vis2_cor (arr_shape0 w) (arr_shape0 v)"
    by blast
  from covs_loop_spec[OF c(2)] p
  show "\<exists>d0 w v. take 1 ds = [d0] \<and> d0 ''wave'' = Some w \<and> d0 ''vis2'' = Some v \<and>
         length covs = length ds \<and>
         (\<forall>j<length ds. \<exists>du. (ds ! j) ''dvis2'' = Some du \<and>
            assemble_cov (vis2_cor (arr_shape0 w) (arr_shape0 v)) (arr_flatten du)
              = Inr (covs ! j))"
    unfolding e by blast
next
  assume a: "file_t3_covs ds = Inr covs"
  then obtain cor cs where c: "file_t3_cor ds = Inr cor"
    "covs_loop cor ''dt3'' ds = Inr cs" "np_array cs = Inr covs"
    by (auto simp: file_t3_covs_def split: sum.splits)
  have e: "covs = cs" using np_array_id[OF c(3)] .
  from file_t3_cor_pinned[OF c(1)] obtain d0 w t3mat where p:
    "take 1 ds = [d0]" "d0 ''wave'' = Some w" "d0 ''t3mat'' = Some (A2 t3mat)"
    "t3_cor (arr_shape0 w) t3mat = Inr cor"
    by blast
  from covs_loop_spec[OF c(2)] p
  show "\<exists>d0 w t3mat cor. take 1 ds = [d0] \<and> d0 ''wave'' = Some w \<and>
         d0 ''t3mat'' = Some (A2 t3mat) \<and> t3_cor (arr_shape0 w) t3mat = Inr cor \<and>
         length covs = length ds \<and>
         (\<forall>j<length ds. \<exists>du. (ds ! j) ''dt3'' = Some du \<and>
            assemble_cov cor (arr_flatten du) = Inr (covs ! j))"
    unfolding e by blast
qed

theorem batch_one_covariance_per_exposure_witness:
  "file_vis2_covs example_file
     = Inr [\<lparr>shape0 = 3, shape1 = 3, rowlist = [[1, 0, 0], [0, 4, 0], [0, 0, 9]]\<rparr>,
            \<lparr>shape0 = 3, shape1 = 3, rowlist = [[16, 0, 0], [0, 25, 0], [0, 0, 36]]\<rparr>] \<and>
   file_t3_covs example_file
     = Inr [\<lparr>shape0 = 1, shape1 = 1, rowlist = [[4]]\<rparr>,
            \<lparr>shape0 = 1, shape1 = 1, rowlist = [[9]]\<rparr>] \<and>
   (\<exists>du. (example_file ! 1) ''dvis2'' = Some du \<and>
      assemble_cov (vis2_cor 1 3) (arr_flatten du)
        = Inr \<lparr>shape0 = 3, shape1 = 3, rowlist = [[16, 0, 0], [0, 25, 0], [0, 0, 36]]\<rparr>) \<and>
   (\<exists>cor du. t3_cor 1 \<lparr>shape0 = 1, shape1 = 3, rowlist = [[1, -1, 1]]\<rparr> = Inr cor \<and>
      (example_file ! 1) ''dt3'' = Some du \<and>
      assemble_cov cor (arr_flatten du) = Inr \<lparr>shape0 = 1, shape1 = 1, rowlist = [[9]]\<rparr>)"
proof -
  let ?v = "[\<lparr>shape0 = 3, shape1 = 3, rowlist = [[1, 0, 0], [0, 4, 0], [0, 0, 9]]\<rparr>,
            \<lparr>shape0 = 3, shape1 = 3, rowlist = [[16, 0, 0], [0, 25, 0], [0, 0, 36]]\<rparr>]"
  let ?t = "[\<lparr>shape0 = 1, shape1 = 1, rowlist = [[4]]\<rparr>,
            \<lparr>shape0 = 1, shape1 = 1, rowlist = [[9::real]]\<rparr>]"
  let ?d0 = "example_exposure [[1], [2], [3]] 2"
  have v: "file_vis2_covs example_file = Inr ?v" by code_simp
  have t: "file_t3_covs example_file = Inr ?t" by code_simp
  have n: "(1::nat) < length example_file" by (simp add: example_file_def)
  have hd: "take 1 example_file = [?d0]" by (simp add: example_file_def)
  have g: "?d0 ''wave'' = Some (A1 [16/10])"
    "?d0 ''vis2'' = Some (A2 \<lparr>shape0 = 3, shape1 = 1, rowlist = [[1/2], [1/3], [1/4]]\<rparr>)"
    "?d0 ''t3mat'' = Some (A2 \<lparr>shape0 = 1, shape1 = 3, rowlist = [[1, -1, 1]]\<rparr>)"
    by (simp_all add: example_exposure_def)
  from batch_one_covariance_per_exposure[of example_file ?v] v obtain d0 w u where a:
    "take 1 example_file = [d0]" "d0 ''wave'' = Some w" "d0 ''vis2'' = Some u"
    "\<forall>j<length example_file. \<exists>du. (example_file ! j) ''dvis2'' = Some du \<and>
        assemble_cov (vis2_cor (arr_shape0 w) (arr_shape0 u)) (arr_flatten du) = Inr (?v ! j)"
    by blast
  have "d0 = ?d0" using a(1) hd by simp
  then have "arr_shape0 w = 1" "arr_shape0 u = 3" using a(2,3) g by auto
  with a(4) n have a': "\<exists>du. (example_file ! 1) ''dvis2'' = Some du \<and>
      assemble_cov (vis2_cor 1 3) (arr_flatten du) = Inr (?v ! 1)"
    by metis
  from batch_one_covariance_per_exposure[of example_file ?t] t obtain d1 w' m cor where b:
    "take 1 example_file = [d1]" "d1 ''wave'' = Some w'" "d1 ''t3mat'' = Some (A2 m)"
    "t3_cor (arr_shape0 w') m = Inr cor"
    "\<forall>j<length example_file. \<exists>du. (example_file ! j) ''dt3'' = Some du \<and>
        assemble_cov cor (arr_flatten du) = Inr (?t ! j)"
    by blast
  have "d1 = ?d0" using b(1) hd by simp
  then have "arr_shape0 w' = 1" "m = \<lparr>shape0 = 1, shape1 = 3, rowlist = [[1, -1, 1]]\<rparr>"
    using b(2,3) g by auto
  with b(4) have c: "t3_cor 1 \<lparr>shape0 = 1, shape1 = 3, rowlist = [[1, -1, 1]]\<rparr> = Inr cor"
    by simp
  from b(5) n have "\<exists>du. (example_file ! 1) ''dt3'' = Some du \<and>
      assemble_cov cor (arr_flatten du) = Inr (?t ! 1)"
    by blast
  with c have b': "\<exists>cor du. t3_cor 1 \<lparr>shape0 = 1, shape1 = 3, rowlist = [[1, -1, 1]]\<rparr> = Inr cor \<and>
      (example_file ! 1) ''dt3'' = Some du \<and>
      assemble_cov cor (arr_flatten du) = Inr \<lparr>shape0 = 1, shape1 = 1, rowlist = [[9]]\<rparr>"
    by auto
  from a' have a'': "\<exists>du. (example_file ! 1) ''dvis2'' = Some du \<and>
      assemble_cov (vis2_cor 1 3) (arr_flatten du)
        = Inr \<lparr>shape0 = 3, shape1 = 3, rowlist = [[16, 0, 0], [0, 25, 0], [0, 0, 36]]\<rparr>"
    by auto
  from v t a'' b' show ?thesis by blast
qed

text \<open>
  C10. When \<open>add_cov\<close> returns, the field \<open>idir\<close> of the object has the value it had before
  the call, and so has every other field. In between, \<open>add_t3cov\<close> runs on the object with
  \<open>idir\<close> set to the output directory and on the files as \<open>add_vis2cov\<close> left them, so that
  it reads the file which already holds the first extension.
\<close>

theorem add_cov_restores_idir:
  "add_cov self odir fs = Inr (self', fs') \<Longrightarrow>
     idir self' = idir self \<and> self' = self \<and>
     (\<exists>fs0 fs1. ensure_dir fs odir = Inr fs0 \<and>
            add_vis2cov self odir fs0 = Inr (self, fs1) \<and>
            add_t3cov (self\<lparr>idir := odir\<rparr>) odir fs1 = Inr (self\<lparr>idir := odir\<rparr>, fs'))"
proof -
  assume a: "add_cov self odir fs = Inr (self', fs')"
  then obtain fs0 where d: "ensure_dir fs odir = Inr fs0"
    by (auto simp: add_cov_def split: sum.splits)
  from a d obtain s1 fs1 where v: "add_vis2cov self odir fs0 = Inr (s1, fs1)"
    by (auto simp: add_cov_def Let_def split: sum.splits)
  have s1: "s1 = self" using add_vis2cov_self[OF v] .
  from a d v s1 obtain s3 where t:
    "add_t3cov (self\<lparr>idir := odir\<rparr>) odir fs1 = Inr (s3, fs')" "self' = s3\<lparr>idir := idir self\<rparr>"
    by (auto simp: add_cov_def Let_def split: sum.splits)
  have s3: "s3 = self\<lparr>idir := odir\<rparr>" using add_t3cov_self[OF t(1)] .
  have "self' = self" using t(2) s3 by simp
  then show ?thesis using d v s1 t(1) s3 by auto
qed

theorem add_cov_restores_idir_witness:
  "\<exists>s f. add_cov example_data ''out/'' example_filesys = Inr (s, f) \<and>
         idir s = ''in/'' \<and>
         map extname (the (files f ''out/a.fits'')) = [''PRIMARY'', ''T3COV'', ''VIS2COV'']"
proof -
  have e: "case add_cov example_data ''out/'' example_filesys of
             Inl e \<Rightarrow> False
           | Inr (s, f) \<Rightarrow>
               map extname (the (files f ''out/a.fits'')) = [''PRIMARY'', ''T3COV'', ''VIS2COV'']"
    by code_simp
  then obtain s f where r: "add_cov example_data ''out/'' example_filesys = Inr (s, f)"
    "map extname (the (files f ''out/a.fits'')) = [''PRIMARY'', ''T3COV'', ''VIS2COV'']"
    by (auto split: sum.splits)
  from add_cov_restores_idir[OF r(1)] have "idir s = idir example_data" by blast
  then have "idir s = ''in/''" by (simp add: example_data_def)
  with r show ?thesis by (intro exI[of _ s] exI[of _ f]) simp
qed

end
